theory Spec2Isabelle
  imports Complex_Main "HOL-Library.List_Lexorder" "HOL-Library.Char_ord"
begin

section \<open>JavaScript values used by the habit tracker\<close>

text \<open>
  The habit tracker is a React component (\<^verbatim>\<open>src/App.tsx\<close>) over one array of
  \<^verbatim>\<open>Habit\<close> objects. Its state transitions and derived views are embedded here as
  functions from the current collection (and the current instant, where the source reads the
  clock) to the next collection or view.

  Strings of the habit records are \<^typ>\<open>string\<close>; one \<^typ>\<open>char\<close> stands for one
  UTF-16 code unit below 256. The relational operators of JavaScript on strings compare
  code units lexicographically, a proper prefix being smaller; that is the order of
  \<open>List_Lexorder\<close> over \<open>Char_ord\<close>.
\<close>

text \<open>\<^verbatim>\<open>Array.prototype.includes\<close>\<close>

definition arrIncludes :: "'a list \<Rightarrow> 'a \<Rightarrow> bool" where
  "arrIncludes xs x = (x \<in> set xs)"

text \<open>\<^verbatim>\<open>String.prototype.split\<close> with a one-character separator.\<close>

fun splitOn :: "'a \<Rightarrow> 'a list \<Rightarrow> 'a list list" where
  "splitOn sep [] = [[]]"
| "splitOn sep (c # cs) =
     (if c = sep then [] # splitOn sep cs
      else (case splitOn sep cs of
              [] \<Rightarrow> [[c]]
            | l # ls \<Rightarrow> (c # l) # ls))"

text \<open>White space of \<^verbatim>\<open>String.prototype.trim\<close> among the code units below 256:
  TAB, LF, VT, FF, CR, SP and NBSP.\<close>

definition isWhiteSpace :: "char \<Rightarrow> bool" where
  "isWhiteSpace c = ((of_char c :: nat) \<in> {9, 10, 11, 12, 13, 32, 160})"

definition trim :: "string \<Rightarrow> string" where
  "trim s = rev (dropWhile isWhiteSpace (rev (dropWhile isWhiteSpace s)))"

definition digit :: "nat \<Rightarrow> char" where
  "digit n = ''0123456789'' ! (n mod 10)"

fun padStart :: "nat \<Rightarrow> nat \<Rightarrow> string" where
  "padStart 0 v = []"
| "padStart (Suc w) v = padStart w (v div 10) @ [digit v]"

function digits :: "nat \<Rightarrow> string" where
  "digits n = (if n < 10 then [digit n] else digits (n div 10) @ [digit n])"
  by pat_completeness auto
termination
  by (relation "measure (\<lambda>n. n)") auto

declare digits.simps [simp del]

text \<open>\<^verbatim>\<open>Number.prototype.toString\<close> on an integral number.\<close>

definition toString :: "int \<Rightarrow> string" where
  "toString n = (if n < 0 then CHR ''-'' # digits (nat (- n)) else digits (nat n))"

section \<open>Dates\<close>

text \<open>
  A \<^verbatim>\<open>Date\<close> is its time value: milliseconds since 1970-01-01T00:00:00Z, here an
  \<^typ>\<open>int\<close>. The functions below follow the abstract operations of ECMAScript
  (\<open>Day\<close>, \<open>WeekDay\<close>, \<open>LocalTime\<close>, \<open>MakeDay\<close>). The local time zone of the host is
  the parameter \<open>tza\<close>, the offset of local time from UTC in milliseconds, taken as
  constant: a zone whose offset changes (daylight saving) is outside the model, since there
  \<^verbatim>\<open>setDate\<close> keeps the local clock time and a day is not always 86400000 ms. Invalid dates (\<^verbatim>\<open>NaN\<close>, a time value beyond
  \<open>8.64e15\<close> in magnitude) are outside the model: \<^verbatim>\<open>currentDate\<close> starts as
  \<^verbatim>\<open>new Date()\<close> and moves by whole weeks.
\<close>

definition msPerDay :: int where
  "msPerDay = 86400000"

definition Day :: "int \<Rightarrow> int" where
  "Day t = t div msPerDay"

definition TimeWithinDay :: "int \<Rightarrow> int" where
  "TimeWithinDay t = t mod msPerDay"

definition WeekDay :: "int \<Rightarrow> int" where
  "WeekDay t = (Day t + 4) mod 7"

definition LocalTime :: "int \<Rightarrow> int \<Rightarrow> int" where
  "LocalTime tza t = t + tza"

text \<open>
  The proleptic Gregorian calendar: year, month (1 to 12) and day of the month of a day
  number, computed era by era (an era is 400 years, 146097 days, starting on 1 March).
\<close>

definition eraOf :: "int \<Rightarrow> int" where
  "eraOf n = (n + 719468) div 146097"

definition dayOfEra :: "int \<Rightarrow> int" where
  "dayOfEra n = (n + 719468) mod 146097"

definition yearOfEra :: "int \<Rightarrow> int" where
  "yearOfEra n =
     (dayOfEra n - dayOfEra n div 1460 + dayOfEra n div 36524 - dayOfEra n div 146096) div 365"

definition dayOfYear :: "int \<Rightarrow> int" where
  "dayOfYear n =
     dayOfEra n - (365 * yearOfEra n + yearOfEra n div 4 - yearOfEra n div 100)"

definition monthIndex :: "int \<Rightarrow> int" where
  "monthIndex n = (5 * dayOfYear n + 2) div 153"

definition DateFromDay :: "int \<Rightarrow> int" where
  "DateFromDay n = dayOfYear n - (153 * monthIndex n + 2) div 5 + 1"

definition MonthFromDay :: "int \<Rightarrow> int" where
  "MonthFromDay n = (if monthIndex n < 10 then monthIndex n + 3 else monthIndex n - 9)"

definition YearFromDay :: "int \<Rightarrow> int" where
  "YearFromDay n = yearOfEra n + eraOf n * 400 + (if MonthFromDay n \<le> 2 then 1 else 0)"

text \<open>\<^verbatim>\<open>Date.prototype.getDay\<close>, \<^verbatim>\<open>getDate\<close> and \<^verbatim>\<open>setDate\<close> work on local time.
  \<^verbatim>\<open>setDate(dt)\<close> keeps the local year, month and time within the day and sets the day
  number to \<open>MakeDay(year, month, dt)\<close>, the day number of the first of the month plus
  \<open>dt - 1\<close>; \<open>dt\<close> may lie outside the month. It returns the new time value.\<close>

definition getDay :: "int \<Rightarrow> int \<Rightarrow> int" where
  "getDay tza t = WeekDay (LocalTime tza t)"

definition getDate :: "int \<Rightarrow> int \<Rightarrow> int" where
  "getDate tza t = DateFromDay (Day (LocalTime tza t))"

definition setDate :: "int \<Rightarrow> int \<Rightarrow> int \<Rightarrow> int" where
  "setDate tza t dt = t + (dt - getDate tza t) * msPerDay"

text \<open>\<^verbatim>\<open>Date.prototype.toISOString\<close> renders the UTC fields:
  \<^verbatim>\<open>YYYY-MM-DDTHH:mm:ss.sssZ\<close>, the year with a sign and six digits outside 0 to 9999.\<close>

definition isoYear :: "int \<Rightarrow> string" where
  "isoYear y =
     (if 0 \<le> y \<and> y \<le> 9999 then padStart 4 (nat y)
      else (if y < 0 then ''-'' else ''+'') @ padStart 6 (nat \<bar>y\<bar>))"

definition toISOString :: "int \<Rightarrow> string" where
  "toISOString t =
     isoYear (YearFromDay (Day t)) @ ''-'' @ padStart 2 (nat (MonthFromDay (Day t))) @ ''-'' @
     padStart 2 (nat (DateFromDay (Day t))) @ ''T'' @
     padStart 2 (nat (TimeWithinDay t div 3600000)) @ '':'' @
     padStart 2 (nat (TimeWithinDay t div 60000 mod 60)) @ '':'' @
     padStart 2 (nat (TimeWithinDay t div 1000 mod 60)) @ ''.'' @
     padStart 3 (nat (TimeWithinDay t mod 1000)) @ ''Z''"

text \<open>\<^verbatim>\<open>const getISODate = (date: Date) => date.toISOString().split('T')[0];\<close>\<close>

definition getISODate :: "int \<Rightarrow> string" where
  "getISODate date = hd (splitOn CHR ''T'' (toISOString date))"

text \<open>
\<^verbatim>\<open>
const getWeekStart = (date: Date) => {
  const d = new Date(date);
  const day = d.getDay();
  const diff = d.getDate() - day; // Adjust to Sunday
  return new Date(d.setDate(diff));
};
\<close>
\<close>

definition getWeekStart :: "int \<Rightarrow> int \<Rightarrow> int" where
  "getWeekStart tza date =
     (let d = date;
          day = getDay tza d;
          diff = getDate tza d - day
      in setDate tza d diff)"

text \<open>
\<^verbatim>\<open>
const addDays = (date: Date, days: number) => {
  const result = new Date(date);
  result.setDate(result.getDate() + days);
  return result;
};
\<close>
\<close>

definition addDays :: "int \<Rightarrow> int \<Rightarrow> int \<Rightarrow> int" where
  "addDays tza date days = setDate tza date (getDate tza date + days)"

text \<open>The weekday names of \<^verbatim>\<open>toLocaleDateString('en-US', { weekday: ... })\<close>, read
  in local time.\<close>

definition weekdayLong :: "int \<Rightarrow> int \<Rightarrow> string" where
  "weekdayLong tza t =
     [''Sunday'', ''Monday'', ''Tuesday'', ''Wednesday'', ''Thursday'', ''Friday'',
      ''Saturday''] ! nat (getDay tza t)"

definition weekdayShort :: "int \<Rightarrow> int \<Rightarrow> string" where
  "weekdayShort tza t =
     [''Sun'', ''Mon'', ''Tue'', ''Wed'', ''Thu'', ''Fri'', ''Sat''] ! nat (getDay tza t)"

text \<open>One entry of \<^verbatim>\<open>weekDates\<close>. The field \<^verbatim>\<open>formattedDate\<close> is used for display
  only and is left out.\<close>

record WeekDate =
  dateObj :: int
  iso :: string
  dayName :: string
  shortDay :: string

text \<open>
\<^verbatim>\<open>
const weekStart = useMemo(() => getWeekStart(currentDate), [currentDate]);
const weekDates = useMemo(() => {
  return Array.from({ length: 7 }, (_, i) => {
    const d = addDays(weekStart, i);
    return { dateObj: d, iso: getISODate(d),
             dayName: d.toLocaleDateString('en-US', { weekday: 'long' }),
             shortDay: d.toLocaleDateString('en-US', { weekday: 'short' }), ... };
  });
}, [weekStart]);
\<close>
\<close>

definition weekDate :: "int \<Rightarrow> int \<Rightarrow> int \<Rightarrow> WeekDate" where
  "weekDate tza weekStart i =
     \<lparr>dateObj = addDays tza weekStart i,
      iso = getISODate (addDays tza weekStart i),
      dayName = weekdayLong tza (addDays tza weekStart i),
      shortDay = weekdayShort tza (addDays tza weekStart i)\<rparr>"

definition weekDates :: "int \<Rightarrow> int \<Rightarrow> WeekDate list" where
  "weekDates tza currentDate =
     map (weekDate tza (getWeekStart tza currentDate)) [0, 1, 2, 3, 4, 5, 6]"

text \<open>\<^verbatim>\<open>setCurrentDate(prev => addDays(prev, weeks * 7))\<close>\<close>

definition handleWeekChange :: "int \<Rightarrow> int \<Rightarrow> int \<Rightarrow> int" where
  "handleWeekChange tza prev weeks = addDays tza prev (weeks * 7)"

section \<open>The habit collection\<close>

text \<open>
\<^verbatim>\<open>
export enum Category { HEALTH = 'Health', PRODUCTIVITY = 'Productivity', ... OTHER = 'Other' }
export interface Habit {
  id: string;
  title: string;
  category: Category;
  type: 'habit' | 'reminder';
  completedDates: string[]; // ISO Date strings "YYYY-MM-DD"
  createdAt: string;
  archivedAt?: string; // If set, habit is hidden from this date onwards
  excludedDates?: string[]; // Dates where this habit is skipped/removed specifically
}
\<close>
  An optional field is an \<^typ>\<open>'a option\<close>, \<open>None\<close> for \<^verbatim>\<open>undefined\<close>. The fields
  \<^verbatim>\<open>id\<close> and \<^verbatim>\<open>type\<close> are named \<open>habit_id\<close> and \<open>habit_type\<close>.
\<close>

datatype Category = HEALTH | PRODUCTIVITY | MINDFULNESS | LEARNING | FITNESS | OTHER

datatype HabitType = Type_habit | Type_reminder

record Habit =
  habit_id :: string
  title :: string
  category :: Category
  habit_type :: HabitType
  completedDates :: "string list"
  createdAt :: string
  archivedAt :: "string option"
  excludedDates :: "string list option"

text \<open>\<^verbatim>\<open>h.excludedDates || []\<close>\<close>

definition currentExcluded :: "Habit \<Rightarrow> string list" where
  "currentExcluded h = (case excludedDates h of None \<Rightarrow> [] | Some ex \<Rightarrow> ex)"

section \<open>Derived data: which habits a week shows\<close>

text \<open>
\<^verbatim>\<open>
const dailyHabits = useMemo(() => {
  const currentWeekStart = weekDates[0].iso;
  const currentWeekEnd = weekDates[6].iso;
  return habits.filter(h => {
    if (h.type !== 'habit') return false;
    // LOGIC: Show if not archived OR archived AFTER the start of this week
    const isVisible = !h.archivedAt || h.archivedAt > currentWeekStart;
    // LOGIC: Show if created ON or BEFORE the end of this week
    const isCreated = !h.createdAt || h.createdAt <= currentWeekEnd;
    return isVisible && isCreated;
  });
}, [habits, weekDates]);
\<close>
  \<^verbatim>\<open>!s\<close> holds of \<^verbatim>\<open>undefined\<close> and of the empty string.
\<close>

definition isVisible :: "string \<Rightarrow> Habit \<Rightarrow> bool" where
  "isVisible currentWeekStart h =
     (case archivedAt h of
        None \<Rightarrow> True
      | Some a \<Rightarrow> a = [] \<or> a > currentWeekStart)"

definition isCreated :: "string \<Rightarrow> Habit \<Rightarrow> bool" where
  "isCreated currentWeekEnd h = (createdAt h = [] \<or> createdAt h \<le> currentWeekEnd)"

definition dailyHabits :: "Habit list \<Rightarrow> WeekDate list \<Rightarrow> Habit list" where
  "dailyHabits habits week =
     filter (\<lambda>h. if habit_type h \<noteq> Type_habit then False
                 else isVisible (iso (week ! 0)) h \<and> isCreated (iso (week ! 6)) h)
       habits"

text \<open>
\<^verbatim>\<open>
const reminders = useMemo(() => {
  const currentWeekStart = weekDates[0].iso;
  return habits.filter(h => {
    if (h.type !== 'reminder') return false;
    return !h.archivedAt || h.archivedAt > currentWeekStart;
  });
}, [habits, weekDates]);
\<close>
\<close>

definition reminders :: "Habit list \<Rightarrow> WeekDate list \<Rightarrow> Habit list" where
  "reminders habits week =
     filter (\<lambda>h. if habit_type h \<noteq> Type_reminder then False
                 else isVisible (iso (week ! 0)) h)
       habits"

section \<open>Derived data: completion counts and rates\<close>

text \<open>
\<^verbatim>\<open>
const activeHabitsForDay = dailyHabits.filter(h => !h.excludedDates?.includes(d.iso));
\<close>
\<close>

definition activeHabitsForDay :: "Habit list \<Rightarrow> WeekDate \<Rightarrow> Habit list" where
  "activeHabitsForDay daily d =
     filter (\<lambda>h. \<not> (case excludedDates h of
                        None \<Rightarrow> False
                      | Some ex \<Rightarrow> arrIncludes ex (iso d)))
       daily"

record WeeklyDataPoint =
  day :: string
  fullDate :: string
  completed :: nat
  total :: nat

text \<open>
\<^verbatim>\<open>
const weeklyDataPoints: WeeklyDataPoint[] = useMemo(() => {
  return weekDates.map(d => {
    // Only count habits that are NOT excluded for this specific day
    const activeHabitsForDay = dailyHabits.filter(h => !h.excludedDates?.includes(d.iso));
    const completedCount = activeHabitsForDay.reduce(
      (acc, h) => acc + (h.completedDates.includes(d.iso) ? 1 : 0), 0);
    return { day: d.shortDay, fullDate: d.iso, completed: completedCount,
             total: activeHabitsForDay.length };
  });
}, [weekDates, dailyHabits]);
\<close>
\<close>

definition completedCount :: "Habit list \<Rightarrow> WeekDate \<Rightarrow> nat" where
  "completedCount active d =
     foldl (\<lambda>acc h. acc + (if arrIncludes (completedDates h) (iso d) then 1 else 0)) 0 active"

definition weeklyDataPoint :: "Habit list \<Rightarrow> WeekDate \<Rightarrow> WeeklyDataPoint" where
  "weeklyDataPoint daily d =
     \<lparr>day = shortDay d,
      fullDate = iso d,
      completed = completedCount (activeHabitsForDay daily d) d,
      total = length (activeHabitsForDay daily d)\<rparr>"

definition weeklyDataPoints :: "WeekDate list \<Rightarrow> Habit list \<Rightarrow> WeeklyDataPoint list" where
  "weeklyDataPoints week daily = map (weeklyDataPoint daily) week"

text \<open>
  The rates are JavaScript numbers. The counts are exact; a quotient is modelled as the exact
  rational, and \<open>None\<close> stands for a result that is not a finite number (\<^verbatim>\<open>NaN\<close> from
  \<open>0 / 0\<close>, an infinity from \<open>x / 0\<close>). The rounding of doubles is not modelled.
\<close>

definition numDivide :: "nat \<Rightarrow> nat \<Rightarrow> rat option" where
  "numDivide a b = (if b = 0 then None else Some (of_nat a / of_nat b))"

definition numTimes :: "rat option \<Rightarrow> rat \<Rightarrow> rat option" where
  "numTimes q k = map_option (\<lambda>x. x * k) q"

text \<open>
\<^verbatim>\<open>
const totalWeeklyTasks = weeklyDataPoints.reduce((acc, day) => acc + day.total, 0);
const completedWeeklyTasks = weeklyDataPoints.reduce((acc, day) => acc + day.completed, 0);
const weeklyCompletionRate =
  totalWeeklyTasks > 0 ? (completedWeeklyTasks / totalWeeklyTasks) * 100 : 0;
\<close>
\<close>

definition totalWeeklyTasks :: "WeeklyDataPoint list \<Rightarrow> nat" where
  "totalWeeklyTasks pts = foldl (\<lambda>acc day. acc + total day) 0 pts"

definition completedWeeklyTasks :: "WeeklyDataPoint list \<Rightarrow> nat" where
  "completedWeeklyTasks pts = foldl (\<lambda>acc day. acc + completed day) 0 pts"

definition weeklyCompletionRate :: "WeeklyDataPoint list \<Rightarrow> rat option" where
  "weeklyCompletionRate pts =
     (if totalWeeklyTasks pts > 0
      then numTimes (numDivide (completedWeeklyTasks pts) (totalWeeklyTasks pts)) 100
      else Some 0)"

text \<open>
  The daily columns recompute the day's figures:
\<^verbatim>\<open>
const activeHabitsForDay = dailyHabits.filter(h => !h.excludedDates?.includes(dayData.iso));
const dayCompletedCount =
  activeHabitsForDay.filter(h => h.completedDates.includes(dayData.iso)).length;
const dayTotalCount = activeHabitsForDay.length;
const dayPercentage = dayTotalCount > 0 ? (dayCompletedCount / dayTotalCount) * 100 : 0;
\<close>
\<close>

definition dayCompletedCount :: "Habit list \<Rightarrow> WeekDate \<Rightarrow> nat" where
  "dayCompletedCount daily dayData =
     length (filter (\<lambda>h. arrIncludes (completedDates h) (iso dayData))
               (activeHabitsForDay daily dayData))"

definition dayTotalCount :: "Habit list \<Rightarrow> WeekDate \<Rightarrow> nat" where
  "dayTotalCount daily dayData = length (activeHabitsForDay daily dayData)"

definition dayPercentage :: "Habit list \<Rightarrow> WeekDate \<Rightarrow> rat option" where
  "dayPercentage daily dayData =
     (if dayTotalCount daily dayData > 0
      then numTimes (numDivide (dayCompletedCount daily dayData)
                       (dayTotalCount daily dayData)) 100
      else Some 0)"

text \<open>The data points of the week on display, from the collection and the current date.\<close>

definition weekPoints :: "int \<Rightarrow> int \<Rightarrow> Habit list \<Rightarrow> WeeklyDataPoint list" where
  "weekPoints tza currentDate habits =
     weeklyDataPoints (weekDates tza currentDate)
       (dailyHabits habits (weekDates tza currentDate))"

section \<open>Actions\<close>

text \<open>
  Each action replaces the collection: \<^verbatim>\<open>setHabits(prev => ...)\<close>. The model takes the
  current collection and returns the next.
\<^verbatim>\<open>
const toggleHabit = (id: string, dateIso: string) => {
  setHabits(prev => prev.map(h => {
    if (h.id !== id) return h;
    const isCompleted = h.completedDates.includes(dateIso);
    return { ...h,
      completedDates: isCompleted
        ? h.completedDates.filter(d => d !== dateIso)
        : [...h.completedDates, dateIso] };
  }));
};
\<close>
\<close>

definition toggleHabit :: "Habit list \<Rightarrow> string \<Rightarrow> string \<Rightarrow> Habit list" where
  "toggleHabit prev ident dateIso =
     map (\<lambda>h. if habit_id h \<noteq> ident then h
              else h\<lparr>completedDates :=
                     (if arrIncludes (completedDates h) dateIso
                      then filter (\<lambda>d. d \<noteq> dateIso) (completedDates h)
                      else completedDates h @ [dateIso])\<rparr>)
       prev"

text \<open>
\<^verbatim>\<open>
const toggleReminder = (id: string) => {
  const today = getISODate(new Date());
  setHabits(prev => prev.map(h => {
    if (h.id !== id) return h;
    const isDone = h.completedDates.length > 0;
    return { ...h, completedDates: isDone ? [] : [today] };
  }));
};
\<close>
  \<open>now\<close> is the time value of \<^verbatim>\<open>new Date()\<close>, the instant of the call.
\<close>

definition toggleReminder :: "int \<Rightarrow> Habit list \<Rightarrow> string \<Rightarrow> Habit list" where
  "toggleReminder now prev ident =
     map (\<lambda>h. if habit_id h \<noteq> ident then h
              else h\<lparr>completedDates :=
                     (if length (completedDates h) > 0 then [] else [getISODate now])\<rparr>)
       prev"

text \<open>
\<^verbatim>\<open>
const addHabit = (e: React.FormEvent) => {
  e.preventDefault();
  if (!newHabitTitle.trim()) return;
  const newHabit: Habit = {
    id: Date.now().toString(),
    title: newHabitTitle,
    category: Category.OTHER,
    type: newHabitType,
    completedDates: [],
    excludedDates: [],
    // Set creation date to the start of the currently viewed week so it appears immediately
    createdAt: weekDates[0].iso,
  };
  setHabits([...habits, newHabit]);
  ...
};
\<close>
\<close>

definition addHabit ::
  "int \<Rightarrow> WeekDate list \<Rightarrow> string \<Rightarrow> HabitType \<Rightarrow> Habit list \<Rightarrow> Habit list" where
  "addHabit now week newHabitTitle newHabitType habits =
     (if trim newHabitTitle = [] then habits
      else habits @
        [\<lparr>habit_id = toString now,
          title = newHabitTitle,
          category = OTHER,
          habit_type = newHabitType,
          completedDates = [],
          createdAt = iso (week ! 0),
          archivedAt = None,
          excludedDates = Some []\<rparr>])"

text \<open>
\<^verbatim>\<open>
// If dateIso is provided, we only remove it for that day (add to excludedDates)
// If dateIso is NOT provided, we act on the whole habit (Archive/Delete)
const deleteHabit = (id: string, dateIso?: string) => {
  const habit = habits.find(h => h.id === id);
  if (!habit) return;
  if (dateIso) {
    // Delete from specific day only
    setHabits(prev => prev.map(h => {
      if (h.id !== id) return h;
      const currentExcluded = h.excludedDates || [];
      // Prevent duplicate entries
      if (currentExcluded.includes(dateIso)) return h;
      return { ...h,
        // Also uncheck it if it was checked, to prevent "ghost" completions
        completedDates: h.completedDates.filter(d => d !== dateIso),
        excludedDates: [...currentExcluded, dateIso] };
    }));
    return;
  }
  // Check if there is history before this week
  const currentWeekStartIso = weekDates[0].iso;
  const hasPriorHistory = habit.completedDates.some(date => date < currentWeekStartIso);
  if (hasPriorHistory) {
    // Soft delete: Archive it starting this week.
    // It will disappear from this week's view but remain in history.
    setHabits(prev => prev.map(h => h.id === id ? { ...h, archivedAt: currentWeekStartIso } : h));
  } else {
    // Hard delete: No important history to preserve
    setHabits(prev => prev.filter(h => h.id !== id));
  }
};
\<close>
  The test \<^verbatim>\<open>if (dateIso)\<close> fails for a missing argument and for the empty string.
  The branch for one day is \<open>excludeForDay\<close>, the branch for the whole habit is
  \<open>removeOrArchive\<close>; \<open>deleteHabit\<close> chooses between them as the source does.
\<close>

definition excludeForDay :: "Habit list \<Rightarrow> string \<Rightarrow> string \<Rightarrow> Habit list" where
  "excludeForDay prev ident dateIso =
     map (\<lambda>h. if habit_id h \<noteq> ident then h
              else if arrIncludes (currentExcluded h) dateIso then h
              else h\<lparr>completedDates := filter (\<lambda>d. d \<noteq> dateIso) (completedDates h),
                     excludedDates := Some (currentExcluded h @ [dateIso])\<rparr>)
       prev"

definition hasPriorHistory :: "string \<Rightarrow> Habit \<Rightarrow> bool" where
  "hasPriorHistory currentWeekStartIso habit =
     list_ex (\<lambda>date. date < currentWeekStartIso) (completedDates habit)"

definition removeOrArchive :: "Habit list \<Rightarrow> Habit \<Rightarrow> string \<Rightarrow> string \<Rightarrow> Habit list" where
  "removeOrArchive prev habit currentWeekStartIso ident =
     (if hasPriorHistory currentWeekStartIso habit
      then map (\<lambda>h. if habit_id h = ident then h\<lparr>archivedAt := Some currentWeekStartIso\<rparr>
                    else h) prev
      else filter (\<lambda>h. habit_id h \<noteq> ident) prev)"

definition deleteHabit ::
  "WeekDate list \<Rightarrow> Habit list \<Rightarrow> string \<Rightarrow> string option \<Rightarrow> Habit list" where
  "deleteHabit week habits ident dateIso =
     (case find (\<lambda>h. habit_id h = ident) habits of
        None \<Rightarrow> habits
      | Some habit \<Rightarrow>
          (case dateIso of
             Some (c # cs) \<Rightarrow> excludeForDay habits ident (c # cs)
           | _ \<Rightarrow> removeOrArchive habits habit (iso (week ! 0)) ident))"

section \<open>The application state\<close>

text \<open>
  The component holds \<^verbatim>\<open>habits\<close> and \<^verbatim>\<open>currentDate\<close>; \<^verbatim>\<open>weekDates\<close> is recomputed
  from \<^verbatim>\<open>currentDate\<close> at every render. A user action is one of the handlers above with
  its arguments, the clock reading included where the handler takes one.
\<close>

record AppState =
  st_habits :: "Habit list"
  st_currentDate :: int

datatype Action =
    ToggleHabit string string
  | ToggleReminder int string
  | AddHabit int string HabitType
  | DeleteHabit string "string option"
  | WeekChange int

fun dispatch :: "int \<Rightarrow> AppState \<Rightarrow> Action \<Rightarrow> AppState" where
  "dispatch tza s (ToggleHabit ident dateIso) =
     s\<lparr>st_habits := toggleHabit (st_habits s) ident dateIso\<rparr>"
| "dispatch tza s (ToggleReminder now ident) =
     s\<lparr>st_habits := toggleReminder now (st_habits s) ident\<rparr>"
| "dispatch tza s (AddHabit now newHabitTitle newHabitType) =
     s\<lparr>st_habits :=
         addHabit now (weekDates tza (st_currentDate s)) newHabitTitle newHabitType (st_habits s)\<rparr>"
| "dispatch tza s (DeleteHabit ident dateIso) =
     s\<lparr>st_habits := deleteHabit (weekDates tza (st_currentDate s)) (st_habits s) ident dateIso\<rparr>"
| "dispatch tza s (WeekChange weeks) =
     s\<lparr>st_currentDate := handleWeekChange tza (st_currentDate s) weeks\<rparr>"

fun run :: "int \<Rightarrow> AppState \<Rightarrow> Action list \<Rightarrow> AppState" where
  "run tza s [] = s"
| "run tza s (a # as) = run tza (dispatch tza s a) as"

text \<open>The daily column of a habit offers \<^verbatim>\<open>toggleHabit\<close> only while the habit is among
  \<^verbatim>\<open>activeHabitsForDay\<close>, that is, while the day is not in its \<^verbatim>\<open>excludedDates\<close>:
\<^verbatim>\<open>
{activeHabitsForDay.map(habit => { ...
   <div key={habit.id} onClick={() => toggleHabit(habit.id, dayData.iso)} ...
\<close>
  and \<^verbatim>\<open>toggleReminder\<close> is offered on the entries of \<^verbatim>\<open>reminders\<close>, for which no
  control calls \<^verbatim>\<open>deleteHabit\<close> with a day. \<open>offered\<close> is the part of these gates that
  concerns the excluded days: the date an action would record is not excluded for the
  habit it addresses.\<close>

fun offered :: "AppState \<Rightarrow> Action \<Rightarrow> bool" where
  "offered s (ToggleHabit ident dateIso) =
     list_all (\<lambda>h. habit_id h = ident \<longrightarrow> \<not> arrIncludes (currentExcluded h) dateIso)
       (st_habits s)"
| "offered s (ToggleReminder now ident) =
     list_all (\<lambda>h. habit_id h = ident \<longrightarrow> \<not> arrIncludes (currentExcluded h) (getISODate now))
       (st_habits s)"
| "offered s _ = True"

fun allOffered :: "int \<Rightarrow> AppState \<Rightarrow> Action list \<Rightarrow> bool" where
  "allOffered tza s [] = True"
| "allOffered tza s (a # as) = (offered s a \<and> allOffered tza (dispatch tza s a) as)"

text \<open>No habit has a date both completed and excluded.\<close>

definition noGhost :: "Habit list \<Rightarrow> bool" where
  "noGhost hs = list_all (\<lambda>h. set (completedDates h) \<inter> set (currentExcluded h) = {}) hs"

section \<open>The insight generator\<close>

text \<open>
  \<^verbatim>\<open>services/geminiService\<close>. The text of a response is a JavaScript string of arbitrary
  characters, modelled as the list of its UTF-16 code units (\<^typ>\<open>nat\<close>); \<^verbatim>\<open>length\<close>
  counts code units. A pattern without the \<^verbatim>\<open>u\<close> flag matches code unit by code unit.
\<close>

definition asUnits :: "string \<Rightarrow> nat list" where
  "asUnits s = map of_char s"

text \<open>White space and line terminators: what \<^verbatim>\<open>\s\<close> matches and \<^verbatim>\<open>trim\<close> removes.\<close>

definition isSpaceUnit :: "nat \<Rightarrow> bool" where
  "isSpaceUnit u =
     (u \<in> {9, 10, 11, 12, 13, 32, 160, 5760, 8232, 8233, 8239, 8287, 12288, 65279}
      \<or> (8192 \<le> u \<and> u \<le> 8202))"

definition trimUnits :: "nat list \<Rightarrow> nat list" where
  "trimUnits s = rev (dropWhile isSpaceUnit (rev (dropWhile isSpaceUnit s)))"

text \<open>The character class of the pattern in the source holds five characters: U+00E2,
  U+20AC, U+00A2, the hyphen and the asterisk.\<close>

definition inBulletClass :: "nat \<Rightarrow> bool" where
  "inBulletClass u = (u \<in> {226, 8364, 162, 45, 42})"

text \<open>\<^verbatim>\<open>line.replace(/^[...\-\*]\s*/, '')\<close>: one character of the class at the start of
  the line and the white space after it are removed; a line that does not start with one is
  unchanged.\<close>

definition replaceBullet :: "nat list \<Rightarrow> nat list" where
  "replaceBullet line =
     (case line of
        [] \<Rightarrow> []
      | c # cs \<Rightarrow> if inBulletClass c then dropWhile isSpaceUnit cs else line)"

record Summary =
  sum_title :: string
  sum_category :: Category
  totalCompletions :: nat
  lastCompleted :: string

text \<open>\<^verbatim>\<open>lastCompleted: h.completedDates[h.completedDates.length - 1] || 'Never'\<close>\<close>

definition summarize :: "Habit \<Rightarrow> Summary" where
  "summarize h =
     \<lparr>sum_title = title h,
      sum_category = category h,
      totalCompletions = length (completedDates h),
      lastCompleted =
        (if completedDates h = [] \<or> last (completedDates h) = [] then ''Never''
         else last (completedDates h))\<rparr>"

text \<open>The call to the model either throws (no key, network, quota, a rejected promise, a
  response that cannot be read) or returns a response whose \<^verbatim>\<open>text\<close> may be undefined.\<close>

datatype Attempt = Throws | Returns "nat list option"

definition fallbackTips :: "nat list list" where
  "fallbackTips =
     [asUnits ''Keep consistent! Tracking is the first step to improvement.'',
      asUnits ''Try to perform your most difficult habits earlier in the day.'',
      asUnits ''Review your progress weekly to stay on track.'']"

text \<open>
\<^verbatim>\<open>
export const getHabitAnalysis = async (habits: Habit[]): Promise<string[]> => {
  try {
    const ai = new GoogleGenAI({ apiKey: process.env.API_KEY });
    const summary = habits.map(h => ({ ... }));
    const response = await ai.models.generateContent({ ... });
    const text = response.text || "";
    // Split by new lines or bullets and filter empty strings
    const tips = text.split('\n')
      .map(line => line.replace(/^[...\-\*]\s*/, '').trim()) // Remove bullet points
      .filter(line => line.length > 5); // Filter out empty or too short lines
    return tips.slice(0, 3); // Return top 3
  } catch (error) {
    console.error("Error fetching AI analysis:", error);
    return [ "Keep consistent! ...", "Try to perform ...", "Review your progress ..." ];
  }
};
\<close>
\<close>

definition parseTips :: "nat list \<Rightarrow> nat list list" where
  "parseTips text =
     take 3 (filter (\<lambda>line. length line > 5)
               (map (\<lambda>line. trimUnits (replaceBullet line)) (splitOn 10 text)))"

definition getHabitAnalysis :: "(Summary list \<Rightarrow> Attempt) \<Rightarrow> Habit list \<Rightarrow> nat list list" where
  "getHabitAnalysis generateContent habits =
     (case generateContent (map summarize habits) of
        Throws \<Rightarrow> fallbackTips
      | Returns response_text \<Rightarrow>
          parseTips (case response_text of None \<Rightarrow> [] | Some t \<Rightarrow> t))"

section \<open>Example data\<close>

text \<open>A habit with completions on 2024-02-01 and 2024-03-05, and a reminder.\<close>

definition readingHabit :: Habit where
  "readingHabit =
     \<lparr>habit_id = ''1706400000000'', title = ''Read'', category = OTHER,
      habit_type = Type_habit, completedDates = [''2024-02-01'', ''2024-03-05''],
      createdAt = ''2024-01-28'', archivedAt = None, excludedDates = Some []\<rparr>"

definition newHabit :: Habit where
  "newHabit =
     \<lparr>habit_id = ''1710244800001'', title = ''Walk'', category = OTHER,
      habit_type = Type_habit, completedDates = [],
      createdAt = ''2024-03-10'', archivedAt = None, excludedDates = Some []\<rparr>"

definition callReminder :: Habit where
  "callReminder =
     \<lparr>habit_id = ''1710244800002'', title = ''Call the bank'', category = OTHER,
      habit_type = Type_reminder, completedDates = [],
      createdAt = ''2024-03-17'', archivedAt = None, excludedDates = Some []\<rparr>"

text \<open>Tuesday 2024-03-12, 12:00 UTC.\<close>

definition tuesdayNoon :: int where
  "tuesdayNoon = 1710244800000"

section \<open>Lists of habits with distinct identifiers\<close>

lemma map_at_id:
  assumes "distinct (map habit_id hs)" "k < length hs" "habit_id (hs ! k) = i"
  shows "map (\<lambda>h. if habit_id h = i then g h else h) hs = hs[k := g (hs ! k)]"
proof (rule nth_equalityI)
  show "length (map (\<lambda>h. if habit_id h = i then g h else h) hs) = length (hs[k := g (hs ! k)])"
    by simp
next
  fix j assume "j < length (map (\<lambda>h. if habit_id h = i then g h else h) hs)"
  then have j: "j < length hs" by simp
  show "map (\<lambda>h. if habit_id h = i then g h else h) hs ! j = hs[k := g (hs ! k)] ! j"
  proof (cases "j = k")
    case True
    with assms j show ?thesis by simp
  next
    case False
    have "(map habit_id hs ! j = map habit_id hs ! k) = (j = k)"
      using assms(1,2) j by (intro nth_eq_iff_index_eq) simp_all
    with False j assms(2) have "habit_id (hs ! j) \<noteq> habit_id (hs ! k)"
      by simp
    with False j assms show ?thesis by simp
  qed
qed

lemma filter_at_id:
  assumes "distinct (map habit_id hs)" "k < length hs" "habit_id (hs ! k) = i"
  shows "filter (\<lambda>h. habit_id h \<noteq> i) hs = take k hs @ drop (Suc k) hs"
proof -
  have hs: "hs = take k hs @ hs ! k # drop (Suc k) hs"
    using assms(2) by (simp add: id_take_nth_drop)
  have d: "distinct (map habit_id (take k hs) @ habit_id (hs ! k) # map habit_id (drop (Suc k) hs))"
    using assms(1) by (subst (asm) hs) simp
  have a: "\<forall>h\<in>set (take k hs). habit_id h \<noteq> i"
    using d assms(3) by (simp add: image_iff) blast
  have b: "\<forall>h\<in>set (drop (Suc k) hs). habit_id h \<noteq> i"
    using d assms(3) by (simp add: image_iff) blast
  have "filter (\<lambda>h. habit_id h \<noteq> i) (take k hs @ hs ! k # drop (Suc k) hs)
        = take k hs @ drop (Suc k) hs"
    using a b assms(3) by simp
  with hs show ?thesis by simp
qed

lemma find_at_id:
  assumes "distinct (map habit_id hs)" "k < length hs" "habit_id (hs ! k) = i"
  shows "find (\<lambda>h. habit_id h = i) hs = Some (hs ! k)"
proof -
  have "\<exists>j<length hs. habit_id (hs ! j) = i \<and> hs ! k = hs ! j \<and> (\<forall>l<j. habit_id (hs ! l) \<noteq> i)"
  proof (intro exI[of _ k] conjI allI impI)
    fix l assume "l < k"
    then have l: "l < length hs" "l \<noteq> k" using assms(2) by simp_all
    have "(map habit_id hs ! l = map habit_id hs ! k) = (l = k)"
      using assms(1,2) l by (intro nth_eq_iff_index_eq) simp_all
    with l assms(2,3) show "habit_id (hs ! l) \<noteq> i"
      by simp
  qed (use assms in simp_all)
  then show ?thesis by (simp add: find_Some_iff)
qed

section \<open>Facts about dates\<close>

lemma setDate_getDate: "setDate tza t (getDate tza t + n) = t + n * msPerDay"
  by (simp add: setDate_def)

lemma addDays_eq: "addDays tza t n = t + n * msPerDay"
  by (simp add: addDays_def setDate_def)

lemma getWeekStart_eq: "getWeekStart tza t = t - getDay tza t * msPerDay"
  by (simp add: getWeekStart_def Let_def setDate_def algebra_simps)

lemma getDay_range: "0 \<le> getDay tza t \<and> getDay tza t < 7"
  by (simp add: getDay_def WeekDay_def)

lemma Day_shift: "Day (t + n * msPerDay) = Day t + n"
  by (simp add: Day_def msPerDay_def)

lemma getDay_getWeekStart: "getDay tza (getWeekStart tza t) = 0"
proof -
  define D where "D = Day (LocalTime tza t)"
  have "LocalTime tza (t - getDay tza t * msPerDay) = LocalTime tza t + (- getDay tza t) * msPerDay"
    by (simp add: LocalTime_def)
  then have "Day (LocalTime tza (getWeekStart tza t)) = Day (LocalTime tza t) + (- getDay tza t)"
    by (simp only: getWeekStart_eq Day_shift)
  then have shifted: "Day (LocalTime tza (getWeekStart tza t)) = D - (D + 4) mod 7"
    by (simp add: D_def getDay_def WeekDay_def)
  have "(D - (D + 4) mod 7 + 4) mod 7 = 0"
    by presburger
  then show ?thesis
    unfolding getDay_def WeekDay_def shifted .
qed

lemma getWeekStart_idem: "getWeekStart tza (getWeekStart tza t) = getWeekStart tza t"
  by (simp add: getWeekStart_eq [of tza "getWeekStart tza t"] getDay_getWeekStart)

lemma weekDates_nth:
  "weekDates tza cur ! 0 = weekDate tza (getWeekStart tza cur) 0"
  "weekDates tza cur ! 6 = weekDate tza (getWeekStart tza cur) 6"
  by (simp_all add: weekDates_def)

lemma digit_in: "digit n \<in> set ''0123456789''"
  unfolding digit_def by (rule nth_mem) simp

lemma digit_not_T: "digit n \<noteq> CHR ''T''"
  using digit_in [of n] by auto

lemma padStart_not_T: "CHR ''T'' \<notin> set (padStart w v)"
  by (induction w arbitrary: v) (simp_all add: digit_not_T [symmetric])

lemma isoYear_not_T: "CHR ''T'' \<notin> set (isoYear y)"
  by (simp add: isoYear_def padStart_not_T)

lemma splitOn_first: "sep \<notin> set xs \<Longrightarrow> splitOn sep (xs @ sep # ys) = xs # splitOn sep ys"
  by (induction xs) auto

lemma getISODate_eq:
  "getISODate t =
     isoYear (YearFromDay (Day t)) @ ''-'' @ padStart 2 (nat (MonthFromDay (Day t))) @ ''-'' @
     padStart 2 (nat (DateFromDay (Day t)))"
proof -
  let ?d = "isoYear (YearFromDay (Day t)) @ ''-'' @ padStart 2 (nat (MonthFromDay (Day t))) @
            ''-'' @ padStart 2 (nat (DateFromDay (Day t)))"
  have "CHR ''T'' \<notin> set ?d"
    by (simp add: isoYear_not_T padStart_not_T)
  moreover have "\<exists>r. toISOString t = ?d @ CHR ''T'' # r"
    by (simp add: toISOString_def)
  ultimately show ?thesis
    unfolding getISODate_def by (auto simp: splitOn_first simp del: append_assoc)
qed

section \<open>The week of Tuesday 2024-03-12 in UTC\<close>

lemmas calendar_defs = eraOf_def dayOfEra_def yearOfEra_def dayOfYear_def monthIndex_def
  DateFromDay_def MonthFromDay_def YearFromDay_def

lemma padStart_2: "padStart 2 v = [digit (v div 10), digit v]"
proof -
  have two: "(2::nat) = Suc (Suc 0)" by simp
  show ?thesis unfolding two by simp
qed

lemma padStart_4:
  "padStart 4 v =
     [digit (v div 10 div 10 div 10), digit (v div 10 div 10), digit (v div 10), digit v]"
proof -
  have four: "(4::nat) = Suc (Suc (Suc (Suc 0)))" by simp
  show ?thesis unfolding four by simp
qed

text \<open>Day 0 is Thursday 1970-01-01; 2024-02-29 and 2000-02-29 exist, 1900-02-29 does not.\<close>

lemma calendar_checks:
  "(YearFromDay 0, MonthFromDay 0, DateFromDay 0) = (1970, 1, 1)"
  "WeekDay 0 = 4"
  "(YearFromDay 19782, MonthFromDay 19782, DateFromDay 19782) = (2024, 2, 29)"
  "(YearFromDay 11016, MonthFromDay 11016, DateFromDay 11016) = (2000, 2, 29)"
  "(YearFromDay (- 25508), MonthFromDay (- 25508), DateFromDay (- 25508)) = (1900, 3, 1)"
  "(YearFromDay (- 25509), MonthFromDay (- 25509), DateFromDay (- 25509)) = (1900, 2, 28)"
  unfolding calendar_defs WeekDay_def Day_def msPerDay_def by simp_all

lemma toISOString_tuesdayNoon: "toISOString tuesdayNoon = ''2024-03-12T12:00:00.000Z''"
proof -
  have fields: "Day tuesdayNoon = 19794" "TimeWithinDay tuesdayNoon = 43200000"
    by (simp_all add: tuesdayNoon_def Day_def TimeWithinDay_def msPerDay_def)
  have date: "YearFromDay 19794 = 2024" "MonthFromDay 19794 = 3" "DateFromDay 19794 = 12"
    unfolding calendar_defs by simp_all
  have three: "padStart 3 v = [digit (v div 10 div 10), digit (v div 10), digit v]" for v
  proof -
    have "(3::nat) = Suc (Suc (Suc 0))" by simp
    then show ?thesis by (simp only: padStart.simps) simp
  qed
  show ?thesis
    unfolding toISOString_def fields date
    by (simp add: isoYear_def padStart_2 three padStart_4 digit_def)
qed

lemma getDay_tuesdayNoon: "getDay 0 tuesdayNoon = 2"
  by (simp add: getDay_def WeekDay_def LocalTime_def Day_def msPerDay_def tuesdayNoon_def)

lemma getWeekStart_tuesdayNoon: "getWeekStart 0 tuesdayNoon = 1710072000000"
  by (simp add: getWeekStart_eq getDay_tuesdayNoon) (simp add: tuesdayNoon_def msPerDay_def)

lemma calendar_19792:
  "YearFromDay 19792 = 2024" "MonthFromDay 19792 = 3" "DateFromDay 19792 = 10"
  unfolding calendar_defs by simp_all

lemma calendar_19798:
  "YearFromDay 19798 = 2024" "MonthFromDay 19798 = 3" "DateFromDay 19798 = 16"
  unfolding calendar_defs by simp_all

lemma weekStart_iso: "iso (weekDates 0 tuesdayNoon ! 0) = ''2024-03-10''"
proof -
  have "Day (addDays 0 1710072000000 0) = 19792"
    by (simp add: addDays_eq Day_def msPerDay_def)
  then show ?thesis
    by (simp add: weekDates_nth weekDate_def getWeekStart_tuesdayNoon getISODate_eq
        calendar_19792 isoYear_def padStart_2 padStart_4 digit_def)
qed

lemma weekEnd_iso: "iso (weekDates 0 tuesdayNoon ! 6) = ''2024-03-16''"
proof -
  have "Day (addDays 0 1710072000000 6) = 19798"
    by (simp add: addDays_eq Day_def msPerDay_def)
  then show ?thesis
    by (simp add: weekDates_nth weekDate_def getWeekStart_tuesdayNoon getISODate_eq
        calendar_19798 isoYear_def padStart_2 padStart_4 digit_def)
qed


section \<open>Deleting a habit\<close>

lemma hasPriorHistory_iff:
  "hasPriorHistory ws h \<longleftrightarrow> (\<exists>d\<in>set (completedDates h). d < ws)"
  by (simp add: hasPriorHistory_def list_ex_iff)

text \<open>
  Claim C1. Let the habits of the collection have distinct identifiers and let the habit at
  position \<open>k\<close> have the identifier passed to \<^verbatim>\<open>deleteHabit\<close>, called without a date, while
  the week of \<open>currentDate\<close> is shown. If one of its \<^verbatim>\<open>completedDates\<close> is smaller than the
  ISO date of the first day of the week, the collection keeps every habit in place and this
  habit only gets \<^verbatim>\<open>archivedAt\<close> set to that date, its \<^verbatim>\<open>completedDates\<close> and other
  fields as before. Otherwise the habit is taken out of the collection and the others stay.
\<close>

theorem deleteHabit_archives_or_removes:
  assumes "distinct (map habit_id habits)"
    and "k < length habits"
    and "habit_id (habits ! k) = ident"
  shows "deleteHabit (weekDates tza currentDate) habits ident None =
           (if \<exists>d\<in>set (completedDates (habits ! k)). d < iso (weekDates tza currentDate ! 0)
            then habits[k := (habits ! k)\<lparr>archivedAt := Some (iso (weekDates tza currentDate ! 0))\<rparr>]
            else take k habits @ drop (Suc k) habits)"
proof -
  let ?ws = "iso (weekDates tza currentDate ! 0)"
  have found: "find (\<lambda>h. habit_id h = ident) habits = Some (habits ! k)"
    using assms by (rule find_at_id)
  have "deleteHabit (weekDates tza currentDate) habits ident None
        = removeOrArchive habits (habits ! k) ?ws ident"
    by (simp add: deleteHabit_def found)
  also have "\<dots> = (if \<exists>d\<in>set (completedDates (habits ! k)). d < ?ws
            then habits[k := (habits ! k)\<lparr>archivedAt := Some ?ws\<rparr>]
            else take k habits @ drop (Suc k) habits)"
    unfolding removeOrArchive_def hasPriorHistory_iff
    using map_at_id [OF assms, of "\<lambda>h. h\<lparr>archivedAt := Some ?ws\<rparr>"] filter_at_id [OF assms]
    by simp
  finally show ?thesis .
qed

text \<open>The two scenarios, viewing the week that starts on 2024-03-10: a habit completed on
  2024-02-01 and 2024-03-05 is archived with both completions kept, a habit never completed
  is removed.\<close>

theorem deleteHabit_archives_or_removes_witness:
  "distinct (map habit_id [readingHabit, newHabit]) \<and>
   habit_id ([readingHabit, newHabit] ! 0) = ''1706400000000'' \<and>
   habit_id ([readingHabit, newHabit] ! 1) = ''1710244800001'' \<and>
   deleteHabit (weekDates 0 tuesdayNoon) [readingHabit, newHabit] ''1706400000000'' None =
     [readingHabit\<lparr>archivedAt := Some ''2024-03-10''\<rparr>, newHabit] \<and>
   completedDates (readingHabit\<lparr>archivedAt := Some ''2024-03-10''\<rparr>) = [''2024-02-01'', ''2024-03-05''] \<and>
   deleteHabit (weekDates 0 tuesdayNoon) [readingHabit, newHabit] ''1710244800001'' None =
     [readingHabit]"
proof -
  have d: "distinct (map habit_id [readingHabit, newHabit])"
    by (simp add: readingHabit_def newHabit_def)
  have i0: "habit_id ([readingHabit, newHabit] ! 0) = ''1706400000000''"
    by (simp add: readingHabit_def)
  have i1: "habit_id ([readingHabit, newHabit] ! 1) = ''1710244800001''"
    by (simp add: newHabit_def)
  have a: "deleteHabit (weekDates 0 tuesdayNoon) [readingHabit, newHabit] ''1706400000000'' None =
     [readingHabit\<lparr>archivedAt := Some ''2024-03-10''\<rparr>, newHabit]"
    using deleteHabit_archives_or_removes [OF d _ i0, of 0 tuesdayNoon]
    by (simp add: weekStart_iso) (simp add: readingHabit_def)
  have b: "deleteHabit (weekDates 0 tuesdayNoon) [readingHabit, newHabit] ''1710244800001'' None =
     [readingHabit]"
    using deleteHabit_archives_or_removes [OF d _ i1, of 0 tuesdayNoon]
    by (simp add: weekStart_iso) (simp add: newHabit_def)
  have c: "completedDates (readingHabit\<lparr>archivedAt := Some ''2024-03-10''\<rparr>) = [''2024-02-01'', ''2024-03-05'']"
    by (simp add: readingHabit_def)
  from d i0 i1 a b c show ?thesis by blast
qed


section \<open>Toggling a completion\<close>

text \<open>
  Claim C10. \<^verbatim>\<open>toggleHabit\<close> keeps the length and the order of the collection; the
  identifier, title, category, type, creation date, archival date and excluded dates of every
  habit are as before, and a habit with another identifier is unchanged altogether. So at
  most the \<^verbatim>\<open>completedDates\<close> of the habits with the given identifier change.
\<close>

theorem toggleHabit_frame:
  "length (toggleHabit prev ident dateIso) = length prev \<and>
   map habit_id (toggleHabit prev ident dateIso) = map habit_id prev \<and>
   map title (toggleHabit prev ident dateIso) = map title prev \<and>
   map category (toggleHabit prev ident dateIso) = map category prev \<and>
   map habit_type (toggleHabit prev ident dateIso) = map habit_type prev \<and>
   map createdAt (toggleHabit prev ident dateIso) = map createdAt prev \<and>
   map archivedAt (toggleHabit prev ident dateIso) = map archivedAt prev \<and>
   map excludedDates (toggleHabit prev ident dateIso) = map excludedDates prev \<and>
   (\<forall>k<length prev. habit_id (prev ! k) \<noteq> ident \<longrightarrow>
      toggleHabit prev ident dateIso ! k = prev ! k)"
  by (simp add: toggleHabit_def)

text \<open>Toggling Tuesday for the first of two habits leaves the second as it was.\<close>

theorem toggleHabit_frame_witness:
  "(1::nat) < length [readingHabit, newHabit] \<and>
   habit_id ([readingHabit, newHabit] ! 1) \<noteq> ''1706400000000'' \<and>
   toggleHabit [readingHabit, newHabit] ''1706400000000'' ''2024-03-12'' ! 1 = newHabit \<and>
   map habit_id (toggleHabit [readingHabit, newHabit] ''1706400000000'' ''2024-03-12'')
     = [''1706400000000'', ''1710244800001'']"
  using toggleHabit_frame [of "[readingHabit, newHabit]" "''1706400000000''" "''2024-03-12''"]
  by (simp add: readingHabit_def newHabit_def)

section \<open>Toggling a reminder\<close>

text \<open>
  \<^verbatim>\<open>toggleReminder\<close> replaces the \<^verbatim>\<open>completedDates\<close> of the entries with the given
  identifier: an empty list becomes the one-element list of the date part of
  \<^verbatim>\<open>new Date().toISOString()\<close> at the instant of the call, a non-empty list becomes empty;
  all else is unchanged. The week on display (\<open>viewed\<close>) has no part in the result.
\<close>

lemma toggleReminder_records_today:
  "length (toggleReminder now prev ident) = length prev \<and>
   (\<forall>k<length prev.
      if habit_id (prev ! k) = ident
      then toggleReminder now prev ident ! k =
             (prev ! k)\<lparr>completedDates :=
                (if completedDates (prev ! k) = [] then [getISODate now] else [])\<rparr>
      else toggleReminder now prev ident ! k = prev ! k) \<and>
   st_habits (dispatch tza \<lparr>st_habits = prev, st_currentDate = viewed\<rparr> (ToggleReminder now ident))
     = toggleReminder now prev ident"
  by (simp add: toggleReminder_def)

lemma calendar_19794:
  "YearFromDay 19794 = 2024" "MonthFromDay 19794 = 3" "DateFromDay 19794 = 12"
  unfolding calendar_defs by simp_all

lemma today_tuesdayNoon: "getISODate tuesdayNoon = ''2024-03-12''"
proof -
  have "Day tuesdayNoon = 19794"
    by (simp add: tuesdayNoon_def Day_def msPerDay_def)
  then show ?thesis
    by (simp add: getISODate_eq calendar_19794 isoYear_def padStart_2 padStart_4 digit_def)
qed

text \<open>A reminder ticked on 2024-03-12 while the week of 2024-03-26 is on display records
  2024-03-12.\<close>

lemma toggleReminder_records_today_example:
  "(0::nat) < length [callReminder] \<and> habit_id ([callReminder] ! 0) = ''1710244800002'' \<and>
   completedDates ([callReminder] ! 0) = [] \<and>
   st_habits (dispatch 0 \<lparr>st_habits = [callReminder], st_currentDate = 1711454400000\<rparr>
                (ToggleReminder tuesdayNoon ''1710244800002'')) ! 0
     = callReminder\<lparr>completedDates := [''2024-03-12'']\<rparr>"
  using toggleReminder_records_today
      [of tuesdayNoon "[callReminder]" "''1710244800002''" 0 1711454400000]
  by (simp add: today_tuesdayNoon callReminder_def)

lemma calendar_19795:
  "YearFromDay 19795 = 2024" "MonthFromDay 19795 = 3" "DateFromDay 19795 = 13"
  unfolding calendar_defs by simp_all

text \<open>
  Claim C8 says that the date a reminder records is always the actual current date. The date
  recorded is the UTC date of the instant. Half past midnight on Wednesday 2024-03-13 in a
  zone five and a half hours ahead of UTC is 2024-03-12T19:00:00Z: there \<^verbatim>\<open>getDate\<close> is 13
  and \<^verbatim>\<open>getDay\<close> is 3, and \<^verbatim>\<open>toggleReminder\<close> records 2024-03-12, the day before.
  \<^verbatim>\<open>getISODate\<close> renders in UTC what the rest of the component reads in local time.
\<close>

theorem toggleReminder_records_utc_date:
  "getDate 19800000 1710270000000 = 13 \<and>
   getDay 19800000 1710270000000 = 3 \<and>
   getISODate 1710270000000 = ''2024-03-12'' \<and>
   toggleReminder 1710270000000 [callReminder] ''1710244800002''
     = [callReminder\<lparr>completedDates := [''2024-03-12'']\<rparr>]"
proof -
  have local: "Day (LocalTime 19800000 1710270000000) = 19795"
    by (simp add: LocalTime_def Day_def msPerDay_def)
  have utc: "Day 1710270000000 = 19794"
    by (simp add: Day_def msPerDay_def)
  have date: "getDate 19800000 1710270000000 = 13"
    by (simp add: getDate_def local calendar_19795)
  have day: "getDay 19800000 1710270000000 = 3"
    by (simp add: getDay_def WeekDay_def local)
  have stamp: "getISODate 1710270000000 = ''2024-03-12''"
    by (simp add: getISODate_eq utc calendar_19794 isoYear_def padStart_2 padStart_4 digit_def)
  have toggled: "toggleReminder 1710270000000 [callReminder] ''1710244800002''
     = [callReminder\<lparr>completedDates := [''2024-03-12'']\<rparr>]"
    by (simp add: toggleReminder_def stamp callReminder_def)
  from date day stamp toggled show ?thesis
    by (intro conjI)
qed

section \<open>Hiding a habit for one day\<close>

lemma deleteHabit_for_day:
  assumes "dateIso \<noteq> []"
  shows "deleteHabit week habits ident (Some dateIso) = excludeForDay habits ident dateIso"
proof (cases "find (\<lambda>h. habit_id h = ident) habits")
  case None
  then have "\<forall>h\<in>set habits. habit_id h \<noteq> ident"
    by (simp add: find_None_iff)
  then have "excludeForDay habits ident dateIso = habits"
    by (simp add: excludeForDay_def map_idI)
  with None show ?thesis
    by (simp add: deleteHabit_def)
next
  case (Some h)
  with assms show ?thesis
    by (cases dateIso) (simp_all add: deleteHabit_def)
qed

lemma excludeForDay_idem:
  "excludeForDay (excludeForDay habits ident dateIso) ident dateIso
     = excludeForDay habits ident dateIso"
proof -
  define F where "F = (\<lambda>h. if habit_id h \<noteq> ident then h
              else if arrIncludes (currentExcluded h) dateIso then h
              else h\<lparr>completedDates := filter (\<lambda>d. d \<noteq> dateIso) (completedDates h),
                     excludedDates := Some (currentExcluded h @ [dateIso])\<rparr>)"
  have "F (F h) = F h" for h
  proof (cases "habit_id h \<noteq> ident \<or> arrIncludes (currentExcluded h) dateIso")
    case True
    then have "F h = h" by (auto simp: F_def)
    then show ?thesis by simp
  next
    case False
    let ?h = "h\<lparr>completedDates := filter (\<lambda>d. d \<noteq> dateIso) (completedDates h),
                     excludedDates := Some (currentExcluded h @ [dateIso])\<rparr>"
    from False have Fh: "F h = ?h" by (simp add: F_def)
    have "arrIncludes (currentExcluded ?h) dateIso"
      by (simp add: currentExcluded_def arrIncludes_def)
    then have "F ?h = ?h" unfolding F_def by (simp only: if_True if_False if_cancel)
    with Fh show ?thesis by simp
  qed
  then have "map F (map F habits) = map F habits"
    by simp
  then show ?thesis
    unfolding excludeForDay_def F_def .
qed

lemma excludeForDay_nth:
  assumes "k < length habits"
  shows "excludeForDay habits ident dateIso ! k =
              (if habit_id (habits ! k) = ident \<and> dateIso \<notin> set (currentExcluded (habits ! k))
               then (habits ! k)
                      \<lparr>completedDates := filter (\<lambda>d. d \<noteq> dateIso) (completedDates (habits ! k)),
                       excludedDates := Some (currentExcluded (habits ! k) @ [dateIso])\<rparr>
               else habits ! k)"
  using assms unfolding excludeForDay_def arrIncludes_def by (simp only: nth_map) simp

text \<open>
  Claim C5. \<^verbatim>\<open>deleteHabit\<close> with a date (a non-empty string) gives the same collection
  applied twice as applied once. One application keeps the length of the collection; a habit
  with the given identifier whose \<^verbatim>\<open>excludedDates\<close> lack the date gets the date appended
  there and removed from \<^verbatim>\<open>completedDates\<close>; every other habit, and a habit for which the
  date is excluded already, is unchanged.
\<close>

theorem excludeForDay_idempotent:
  assumes "dateIso \<noteq> []"
  shows "deleteHabit week (deleteHabit week habits ident (Some dateIso)) ident (Some dateIso)
           = deleteHabit week habits ident (Some dateIso) \<and>
         length (deleteHabit week habits ident (Some dateIso)) = length habits \<and>
         (\<forall>k<length habits.
            deleteHabit week habits ident (Some dateIso) ! k =
              (if habit_id (habits ! k) = ident \<and> dateIso \<notin> set (currentExcluded (habits ! k))
               then (habits ! k)
                      \<lparr>completedDates := filter (\<lambda>d. d \<noteq> dateIso) (completedDates (habits ! k)),
                       excludedDates := Some (currentExcluded (habits ! k) @ [dateIso])\<rparr>
               else habits ! k))"
proof -
  have len: "length (excludeForDay habits ident dateIso) = length habits"
    by (simp add: excludeForDay_def)
  show ?thesis
    unfolding deleteHabit_for_day [OF assms] excludeForDay_idem
    using len excludeForDay_nth by blast
qed

text \<open>Hiding the habit on 2024-03-05 moves that date from the completed to the excluded
  dates.\<close>

theorem excludeForDay_idempotent_witness:
  "''2024-03-05'' \<noteq> [] \<and> (0::nat) < length [readingHabit] \<and>
   habit_id ([readingHabit] ! 0) = ''1706400000000'' \<and>
   ''2024-03-05'' \<notin> set (currentExcluded ([readingHabit] ! 0)) \<and>
   deleteHabit (weekDates 0 tuesdayNoon) [readingHabit] ''1706400000000'' (Some ''2024-03-05'') ! 0
     = readingHabit\<lparr>completedDates := [''2024-02-01''], excludedDates := Some [''2024-03-05'']\<rparr> \<and>
   deleteHabit (weekDates 0 tuesdayNoon)
     (deleteHabit (weekDates 0 tuesdayNoon) [readingHabit] ''1706400000000'' (Some ''2024-03-05''))
     ''1706400000000'' (Some ''2024-03-05'')
     = deleteHabit (weekDates 0 tuesdayNoon) [readingHabit] ''1706400000000'' (Some ''2024-03-05'')"
  using excludeForDay_idempotent
    [where dateIso = "''2024-03-05''" and week = "weekDates 0 tuesdayNoon"
       and habits = "[readingHabit]" and ident = "''1706400000000''"]
  by (simp add: readingHabit_def currentExcluded_def)

section \<open>Which habits a week shows\<close>

lemma isVisible_iff:
  assumes "archivedAt h \<noteq> Some []"
  shows "isVisible ws h \<longleftrightarrow> (archivedAt h = None \<or> (\<exists>a. archivedAt h = Some a \<and> ws < a))"
  using assms by (cases "archivedAt h") (simp_all add: isVisible_def)

lemma isCreated_iff: "isCreated we h \<longleftrightarrow> createdAt h \<le> we"
  by (auto simp: isCreated_def)

text \<open>
  Claim C2, amended. For a collection whose \<^verbatim>\<open>archivedAt\<close> fields, where set, are non-empty
  date strings, the habits shown for a week are, in the order of the collection, those of
  type \<^verbatim>\<open>habit\<close> with \<^verbatim>\<open>createdAt\<close> at most the ISO date of the last day of the week and
  \<^verbatim>\<open>archivedAt\<close> unset or greater than the ISO date of the first day. In particular a habit
  archived on or before the first day is absent, a habit archived after the first day (or
  not at all) and created by the last day is present, and a habit created within the week and
  archived after its first day is present.
\<close>

theorem dailyHabits_shown:
  assumes "\<forall>h\<in>set habits. archivedAt h \<noteq> Some []"
  shows "dailyHabits habits (weekDates tza currentDate) =
           filter (\<lambda>h. habit_type h = Type_habit \<and>
                        createdAt h \<le> iso (weekDates tza currentDate ! 6) \<and>
                        (archivedAt h = None \<or>
                         (\<exists>a. archivedAt h = Some a \<and> iso (weekDates tza currentDate ! 0) < a)))
             habits \<and>
         (\<forall>h\<in>set habits. \<forall>a. archivedAt h = Some a \<and> a \<le> iso (weekDates tza currentDate ! 0)
           \<longrightarrow> h \<notin> set (dailyHabits habits (weekDates tza currentDate))) \<and>
         (\<forall>h\<in>set habits. habit_type h = Type_habit \<and>
           createdAt h \<le> iso (weekDates tza currentDate ! 6) \<and>
           (archivedAt h = None \<or>
            (\<exists>a. archivedAt h = Some a \<and> iso (weekDates tza currentDate ! 0) < a))
           \<longrightarrow> h \<in> set (dailyHabits habits (weekDates tza currentDate))) \<and>
         (\<forall>h\<in>set habits. \<forall>a. habit_type h = Type_habit \<and>
           iso (weekDates tza currentDate ! 0) \<le> createdAt h \<and>
           createdAt h \<le> iso (weekDates tza currentDate ! 6) \<and>
           archivedAt h = Some a \<and> iso (weekDates tza currentDate ! 0) < a
           \<longrightarrow> h \<in> set (dailyHabits habits (weekDates tza currentDate)))"
proof -
  have eq: "dailyHabits habits (weekDates tza currentDate) =
           filter (\<lambda>h. habit_type h = Type_habit \<and>
                        createdAt h \<le> iso (weekDates tza currentDate ! 6) \<and>
                        (archivedAt h = None \<or>
                         (\<exists>a. archivedAt h = Some a \<and> iso (weekDates tza currentDate ! 0) < a)))
             habits"
    unfolding dailyHabits_def
    by (rule filter_cong [OF refl]) (use assms in \<open>auto simp: isVisible_iff isCreated_iff\<close>)
  have absent: "\<forall>h\<in>set habits. \<forall>a. archivedAt h = Some a \<and> a \<le> iso (weekDates tza currentDate ! 0)
           \<longrightarrow> h \<notin> set (dailyHabits habits (weekDates tza currentDate))"
    unfolding eq by auto
  have present: "\<forall>h\<in>set habits. habit_type h = Type_habit \<and>
           createdAt h \<le> iso (weekDates tza currentDate ! 6) \<and>
           (archivedAt h = None \<or>
            (\<exists>a. archivedAt h = Some a \<and> iso (weekDates tza currentDate ! 0) < a))
           \<longrightarrow> h \<in> set (dailyHabits habits (weekDates tza currentDate))"
    unfolding eq by simp
  have same_week: "\<forall>h\<in>set habits. \<forall>a. habit_type h = Type_habit \<and>
           iso (weekDates tza currentDate ! 0) \<le> createdAt h \<and>
           createdAt h \<le> iso (weekDates tza currentDate ! 6) \<and>
           archivedAt h = Some a \<and> iso (weekDates tza currentDate ! 0) < a
           \<longrightarrow> h \<in> set (dailyHabits habits (weekDates tza currentDate))"
    unfolding eq by simp
  show ?thesis
    apply (intro conjI)
       apply (rule eq)
      apply (rule absent)
     apply (rule present)
    apply (rule same_week)
    done
qed

text \<open>The week of 2024-03-10: a habit never archived and one archived as of the following
  week are shown; a habit archived as of 2024-03-10 and a reminder are not.\<close>

theorem dailyHabits_shown_witness:
  "archivedAt readingHabit \<noteq> Some [] \<and>
   archivedAt (newHabit\<lparr>archivedAt := Some ''2024-03-17''\<rparr>) \<noteq> Some [] \<and>
   archivedAt (readingHabit\<lparr>archivedAt := Some ''2024-03-10''\<rparr>) \<noteq> Some [] \<and>
   archivedAt callReminder \<noteq> Some [] \<and>
   dailyHabits [readingHabit, newHabit\<lparr>archivedAt := Some ''2024-03-17''\<rparr>,
                readingHabit\<lparr>archivedAt := Some ''2024-03-10''\<rparr>, callReminder]
     (weekDates 0 tuesdayNoon)
     = [readingHabit, newHabit\<lparr>archivedAt := Some ''2024-03-17''\<rparr>]"
  using dailyHabits_shown
    [of "[readingHabit, newHabit\<lparr>archivedAt := Some ''2024-03-17''\<rparr>,
          readingHabit\<lparr>archivedAt := Some ''2024-03-10''\<rparr>, callReminder]" 0 tuesdayNoon]
  by (simp add: weekStart_iso weekEnd_iso readingHabit_def newHabit_def callReminder_def)

text \<open>
  Claim C2 as stated fails: a habit created on 2024-03-10 and archived as of 2024-03-10, both
  within the week from 2024-03-10 to 2024-03-16, is not shown for that week. This is the
  date \<^verbatim>\<open>deleteHabit\<close> records when it archives while that week is on display.
\<close>

theorem dailyHabits_same_week_counterexample:
  "iso (weekDates 0 tuesdayNoon ! 0) \<le> createdAt (newHabit\<lparr>archivedAt := Some ''2024-03-10''\<rparr>) \<and>
   createdAt (newHabit\<lparr>archivedAt := Some ''2024-03-10''\<rparr>) \<le> iso (weekDates 0 tuesdayNoon ! 6) \<and>
   iso (weekDates 0 tuesdayNoon ! 0) \<le> ''2024-03-10'' \<and>
   ''2024-03-10'' \<le> iso (weekDates 0 tuesdayNoon ! 6) \<and>
   habit_type (newHabit\<lparr>archivedAt := Some ''2024-03-10''\<rparr>) = Type_habit \<and>
   newHabit\<lparr>archivedAt := Some ''2024-03-10''\<rparr>
     \<notin> set (dailyHabits [newHabit\<lparr>archivedAt := Some ''2024-03-10''\<rparr>] (weekDates 0 tuesdayNoon))"
  by (simp add: dailyHabits_def isVisible_def isCreated_def weekStart_iso weekEnd_iso newHabit_def)

text \<open>
  What the filter for reminders computes: for a collection whose \<^verbatim>\<open>archivedAt\<close> fields,
  where set, are non-empty date strings, the entries of type \<^verbatim>\<open>reminder\<close> with
  \<^verbatim>\<open>archivedAt\<close> unset or greater than the ISO date of the first day of the week, in the
  order of the collection. The archival gate is that of \<^verbatim>\<open>dailyHabits\<close>; the creation gate
  of \<^verbatim>\<open>dailyHabits\<close> has no counterpart.
\<close>

lemma reminders_shown:
  assumes "\<forall>h\<in>set habits. archivedAt h \<noteq> Some []"
  shows "reminders habits (weekDates tza currentDate) =
           filter (\<lambda>h. habit_type h = Type_reminder \<and>
                        (archivedAt h = None \<or>
                         (\<exists>a. archivedAt h = Some a \<and> iso (weekDates tza currentDate ! 0) < a)))
             habits"
  unfolding reminders_def
  by (rule filter_cong [OF refl]) (use assms in \<open>auto simp: isVisible_iff\<close>)

text \<open>The week of 2024-03-10 shows the reminder that is not archived, and neither the habit
  nor the reminder archived as of 2024-03-10.\<close>

lemma reminders_shown_example:
  "archivedAt readingHabit \<noteq> Some [] \<and>
   archivedAt callReminder \<noteq> Some [] \<and>
   archivedAt (callReminder\<lparr>archivedAt := Some ''2024-03-10''\<rparr>) \<noteq> Some [] \<and>
   reminders [readingHabit, callReminder, callReminder\<lparr>archivedAt := Some ''2024-03-10''\<rparr>]
     (weekDates 0 tuesdayNoon) = [callReminder]"
  using reminders_shown
    [of "[readingHabit, callReminder, callReminder\<lparr>archivedAt := Some ''2024-03-10''\<rparr>]"
        0 tuesdayNoon]
  by (simp add: weekStart_iso readingHabit_def callReminder_def)

lemma calendar_19799:
  "YearFromDay 19799 = 2024" "MonthFromDay 19799 = 3" "DateFromDay 19799 = 17"
  unfolding calendar_defs by simp_all

lemma nextWeek: "handleWeekChange 0 tuesdayNoon 1 = 1710849600000"
  by (simp add: handleWeekChange_def addDays_eq tuesdayNoon_def msPerDay_def)

lemma backAgain: "handleWeekChange 0 1710849600000 (- 1) = tuesdayNoon"
  by (simp add: handleWeekChange_def addDays_eq tuesdayNoon_def msPerDay_def)

lemma nextWeekStart_iso: "iso (weekDates 0 1710849600000 ! 0) = ''2024-03-17''"
proof -
  have "getDay 0 1710849600000 = 2"
    by (simp add: getDay_def WeekDay_def LocalTime_def Day_def msPerDay_def)
  then have start: "getWeekStart 0 1710849600000 = 1710676800000"
    by (simp add: getWeekStart_eq msPerDay_def)
  have "Day (addDays 0 1710676800000 0) = 19799"
    by (simp add: addDays_eq Day_def msPerDay_def)
  then show ?thesis
    by (simp add: weekDates_nth weekDate_def start getISODate_eq calendar_19799 isoYear_def
        padStart_2 padStart_4 digit_def)
qed

lemma trim_title: "trim ''Call the bank'' \<noteq> []"
  by (simp add: trim_def isWhiteSpace_def)

text \<open>
  Claim C4 says that a reminder is shown for a week only if its \<^verbatim>\<open>createdAt\<close> is at most
  the last day of the week, as for habits. Move to the next week, add a reminder (it gets
  \<^verbatim>\<open>createdAt\<close> 2024-03-17, the first day of that week) and move back: the week from
  2024-03-10 to 2024-03-16 shows the reminder, although it was created after the last day.
  The same entry with type \<^verbatim>\<open>habit\<close> is not shown by \<^verbatim>\<open>dailyHabits\<close>, which
  has the creation gate that \<^verbatim>\<open>reminders\<close> lacks.
\<close>

theorem reminders_ignore_createdAt:
  "st_habits (run 0 \<lparr>st_habits = [], st_currentDate = tuesdayNoon\<rparr>
     [WeekChange 1, AddHabit 1710244800002 ''Call the bank'' Type_reminder, WeekChange (- 1)])
     = [callReminder\<lparr>habit_id := toString 1710244800002\<rparr>] \<and>
   st_currentDate (run 0 \<lparr>st_habits = [], st_currentDate = tuesdayNoon\<rparr>
     [WeekChange 1, AddHabit 1710244800002 ''Call the bank'' Type_reminder, WeekChange (- 1)])
     = tuesdayNoon \<and>
   createdAt (callReminder\<lparr>habit_id := toString 1710244800002\<rparr>) = ''2024-03-17'' \<and>
   iso (weekDates 0 tuesdayNoon ! 6) = ''2024-03-16'' \<and>
   \<not> createdAt (callReminder\<lparr>habit_id := toString 1710244800002\<rparr>)
       \<le> iso (weekDates 0 tuesdayNoon ! 6) \<and>
   reminders [callReminder\<lparr>habit_id := toString 1710244800002\<rparr>] (weekDates 0 tuesdayNoon)
     = [callReminder\<lparr>habit_id := toString 1710244800002\<rparr>] \<and>
   dailyHabits [callReminder\<lparr>habit_id := toString 1710244800002, habit_type := Type_habit\<rparr>]
     (weekDates 0 tuesdayNoon) = []"
proof -
  have habits: "st_habits (run 0 \<lparr>st_habits = [], st_currentDate = tuesdayNoon\<rparr>
     [WeekChange 1, AddHabit 1710244800002 ''Call the bank'' Type_reminder, WeekChange (- 1)])
     = [callReminder\<lparr>habit_id := toString 1710244800002\<rparr>]"
    by (simp add: nextWeek backAgain addHabit_def trim_title nextWeekStart_iso callReminder_def)
  have date: "st_currentDate (run 0 \<lparr>st_habits = [], st_currentDate = tuesdayNoon\<rparr>
     [WeekChange 1, AddHabit 1710244800002 ''Call the bank'' Type_reminder, WeekChange (- 1)])
     = tuesdayNoon"
    by (simp add: nextWeek backAgain)
  have created: "createdAt (callReminder\<lparr>habit_id := toString 1710244800002\<rparr>) = ''2024-03-17''"
    by (simp add: callReminder_def)
  have late: "\<not> createdAt (callReminder\<lparr>habit_id := toString 1710244800002\<rparr>)
       \<le> iso (weekDates 0 tuesdayNoon ! 6)"
    by (simp add: callReminder_def weekEnd_iso)
  have shown: "reminders [callReminder\<lparr>habit_id := toString 1710244800002\<rparr>]
      (weekDates 0 tuesdayNoon) = [callReminder\<lparr>habit_id := toString 1710244800002\<rparr>]"
    by (simp add: reminders_def isVisible_def callReminder_def)
  have sibling: "dailyHabits
      [callReminder\<lparr>habit_id := toString 1710244800002, habit_type := Type_habit\<rparr>]
      (weekDates 0 tuesdayNoon) = []"
    by (simp add: dailyHabits_def isVisible_def isCreated_def callReminder_def weekEnd_iso)
  from habits date created weekEnd_iso late shown sibling show ?thesis
    by (intro conjI)
qed

section \<open>Completed and excluded dates stay apart\<close>

lemma noGhost_iff:
  "noGhost hs \<longleftrightarrow> (\<forall>h\<in>set hs. set (completedDates h) \<inter> set (currentExcluded h) = {})"
  by (simp add: noGhost_def list_all_iff)

lemma currentExcluded_update [simp]:
  "currentExcluded (h\<lparr>completedDates := cs\<rparr>) = currentExcluded h"
  "currentExcluded (h\<lparr>archivedAt := a\<rparr>) = currentExcluded h"
  "currentExcluded (h\<lparr>excludedDates := Some ex\<rparr>) = ex"
  by (simp_all add: currentExcluded_def)

lemma noGhost_toggleHabit:
  assumes "noGhost hs"
    and "\<forall>h\<in>set hs. habit_id h = ident \<longrightarrow> dateIso \<notin> set (currentExcluded h)"
  shows "noGhost (toggleHabit hs ident dateIso)"
  unfolding noGhost_iff toggleHabit_def
proof
  fix h' assume "h' \<in> set (map (\<lambda>h. if habit_id h \<noteq> ident then h
              else h\<lparr>completedDates :=
                     (if arrIncludes (completedDates h) dateIso
                      then filter (\<lambda>d. d \<noteq> dateIso) (completedDates h)
                      else completedDates h @ [dateIso])\<rparr>) hs)"
  then obtain h where h: "h \<in> set hs"
    and h': "h' = (if habit_id h \<noteq> ident then h
              else h\<lparr>completedDates :=
                     (if arrIncludes (completedDates h) dateIso
                      then filter (\<lambda>d. d \<noteq> dateIso) (completedDates h)
                      else completedDates h @ [dateIso])\<rparr>)"
    by auto
  from assms(1) h have apart: "set (completedDates h) \<inter> set (currentExcluded h) = {}"
    by (simp add: noGhost_iff)
  show "set (completedDates h') \<inter> set (currentExcluded h') = {}"
  proof (cases "habit_id h \<noteq> ident")
    case True
    with h' apart show ?thesis by simp
  next
    case False
    with assms(2) h have "dateIso \<notin> set (currentExcluded h)" by simp
    with False h' apart show ?thesis by auto
  qed
qed

lemma noGhost_toggleReminder:
  assumes "noGhost hs"
    and "\<forall>h\<in>set hs. habit_id h = ident \<longrightarrow> getISODate now \<notin> set (currentExcluded h)"
  shows "noGhost (toggleReminder now hs ident)"
  unfolding noGhost_iff toggleReminder_def
proof
  fix h' assume "h' \<in> set (map (\<lambda>h. if habit_id h \<noteq> ident then h
              else h\<lparr>completedDates :=
                     (if length (completedDates h) > 0 then [] else [getISODate now])\<rparr>) hs)"
  then obtain h where h: "h \<in> set hs"
    and h': "h' = (if habit_id h \<noteq> ident then h
              else h\<lparr>completedDates :=
                     (if length (completedDates h) > 0 then [] else [getISODate now])\<rparr>)"
    by auto
  from assms(1) h have apart: "set (completedDates h) \<inter> set (currentExcluded h) = {}"
    by (simp add: noGhost_iff)
  show "set (completedDates h') \<inter> set (currentExcluded h') = {}"
  proof (cases "habit_id h \<noteq> ident")
    case True
    with h' apart show ?thesis by simp
  next
    case False
    with assms(2) h have "getISODate now \<notin> set (currentExcluded h)" by simp
    with False h' show ?thesis by simp
  qed
qed

lemma noGhost_addHabit:
  assumes "noGhost hs"
  shows "noGhost (addHabit now week newHabitTitle newHabitType hs)"
  using assms
  by (simp add: noGhost_iff addHabit_def)

lemma noGhost_excludeForDay:
  assumes "noGhost hs"
  shows "noGhost (excludeForDay hs ident dateIso)"
  unfolding noGhost_iff excludeForDay_def
proof
  fix h' assume "h' \<in> set (map (\<lambda>h. if habit_id h \<noteq> ident then h
              else if arrIncludes (currentExcluded h) dateIso then h
              else h\<lparr>completedDates := filter (\<lambda>d. d \<noteq> dateIso) (completedDates h),
                     excludedDates := Some (currentExcluded h @ [dateIso])\<rparr>) hs)"
  then obtain h where h: "h \<in> set hs"
    and h': "h' = (if habit_id h \<noteq> ident then h
              else if arrIncludes (currentExcluded h) dateIso then h
              else h\<lparr>completedDates := filter (\<lambda>d. d \<noteq> dateIso) (completedDates h),
                     excludedDates := Some (currentExcluded h @ [dateIso])\<rparr>)"
    by auto
  from assms h have apart: "set (completedDates h) \<inter> set (currentExcluded h) = {}"
    by (simp add: noGhost_iff)
  show "set (completedDates h') \<inter> set (currentExcluded h') = {}"
  proof (cases "habit_id h \<noteq> ident \<or> arrIncludes (currentExcluded h) dateIso")
    case True
    with h' have "h' = h" by auto
    with apart show ?thesis by simp
  next
    case False
    with h' have "h' = h\<lparr>completedDates := filter (\<lambda>d. d \<noteq> dateIso) (completedDates h),
                     excludedDates := Some (currentExcluded h @ [dateIso])\<rparr>"
      by simp
    with apart show ?thesis by auto
  qed
qed

lemma noGhost_removeOrArchive:
  assumes "noGhost hs"
  shows "noGhost (removeOrArchive hs habit ws ident)"
proof (cases "hasPriorHistory ws habit")
  case True
  have "set (completedDates h') \<inter> set (currentExcluded h') = {}"
    if "h' \<in> set (map (\<lambda>h. if habit_id h = ident then h\<lparr>archivedAt := Some ws\<rparr> else h) hs)"
    for h'
  proof -
    from that obtain h where h: "h \<in> set hs"
      and h': "h' = (if habit_id h = ident then h\<lparr>archivedAt := Some ws\<rparr> else h)"
      by auto
    from assms h have "set (completedDates h) \<inter> set (currentExcluded h) = {}"
      by (simp add: noGhost_iff)
    with h' show ?thesis by simp
  qed
  with True show ?thesis
    by (simp add: noGhost_iff removeOrArchive_def)
next
  case False
  with assms show ?thesis
    by (simp add: noGhost_iff removeOrArchive_def)
qed

lemma noGhost_deleteHabit:
  assumes "noGhost hs"
  shows "noGhost (deleteHabit week hs ident dateIso)"
  using assms
  by (simp add: deleteHabit_def noGhost_excludeForDay noGhost_removeOrArchive
      split: option.split list.split)

lemma noGhost_dispatch:
  assumes "noGhost (st_habits s)" and "offered s a"
  shows "noGhost (st_habits (dispatch tza s a))"
proof (cases a)
  case (ToggleHabit ident dateIso)
  with assms show ?thesis
    by (simp add: noGhost_toggleHabit list_all_iff arrIncludes_def)
next
  case (ToggleReminder now ident)
  with assms show ?thesis
    by (simp add: noGhost_toggleReminder list_all_iff arrIncludes_def)
next
  case (AddHabit now newHabitTitle newHabitType)
  with assms show ?thesis
    by (simp add: noGhost_addHabit)
next
  case (DeleteHabit ident dateIso)
  with assms show ?thesis
    by (simp add: noGhost_deleteHabit)
next
  case (WeekChange weeks)
  with assms show ?thesis
    by simp
qed

text \<open>
  Claim C3, amended. Start from a collection in which no habit has a date both completed
  and excluded, and apply any sequence of actions (toggling a habit's day, toggling a
  reminder, adding a habit, deleting for a day or altogether, changing the week) in which
  every toggle is one the interface offers as far as excluded days go: the date it records
  is not among the excluded dates of a habit it addresses. Then no habit of the resulting
  collection has a date both completed and excluded.
\<close>

theorem noGhost_preserved:
  assumes "noGhost (st_habits s)" and "allOffered tza s as"
  shows "noGhost (st_habits (run tza s as))"
  using assms
proof (induction as arbitrary: s)
  case Nil
  then show ?case by simp
next
  case (Cons a as)
  from Cons.prems have "noGhost (st_habits (dispatch tza s a))"
    by (simp add: noGhost_dispatch)
  moreover from Cons.prems have "allOffered tza (dispatch tza s a) as"
    by simp
  ultimately show ?case
    by (simp add: Cons.IH)
qed

text \<open>Tick Tuesday, hide the habit on Tuesday (which unticks it), tick Wednesday.\<close>

theorem noGhost_preserved_witness:
  "noGhost (st_habits \<lparr>st_habits = [newHabit], st_currentDate = tuesdayNoon\<rparr>) \<and>
   allOffered 0 \<lparr>st_habits = [newHabit], st_currentDate = tuesdayNoon\<rparr>
     [ToggleHabit ''1710244800001'' ''2024-03-12'',
      DeleteHabit ''1710244800001'' (Some ''2024-03-12''),
      ToggleHabit ''1710244800001'' ''2024-03-13''] \<and>
   noGhost (st_habits (run 0 \<lparr>st_habits = [newHabit], st_currentDate = tuesdayNoon\<rparr>
     [ToggleHabit ''1710244800001'' ''2024-03-12'',
      DeleteHabit ''1710244800001'' (Some ''2024-03-12''),
      ToggleHabit ''1710244800001'' ''2024-03-13''])) \<and>
   st_habits (run 0 \<lparr>st_habits = [newHabit], st_currentDate = tuesdayNoon\<rparr>
     [ToggleHabit ''1710244800001'' ''2024-03-12'',
      DeleteHabit ''1710244800001'' (Some ''2024-03-12''),
      ToggleHabit ''1710244800001'' ''2024-03-13''])
   = [newHabit\<lparr>completedDates := [''2024-03-13''], excludedDates := Some [''2024-03-12'']\<rparr>]"
proof -
  let ?s = "\<lparr>st_habits = [newHabit], st_currentDate = tuesdayNoon\<rparr>"
  let ?as = "[ToggleHabit ''1710244800001'' ''2024-03-12'',
      DeleteHabit ''1710244800001'' (Some ''2024-03-12''),
      ToggleHabit ''1710244800001'' ''2024-03-13'']"
  have start: "noGhost (st_habits ?s)"
    by (simp add: noGhost_def newHabit_def currentExcluded_def)
  have final: "st_habits (run 0 ?s ?as)
     = [newHabit\<lparr>completedDates := [''2024-03-13''], excludedDates := Some [''2024-03-12'']\<rparr>]"
    by (simp add: toggleHabit_def deleteHabit_def excludeForDay_def arrIncludes_def
        currentExcluded_def newHabit_def)
  have gates: "allOffered 0 ?s ?as"
    by (simp add: toggleHabit_def deleteHabit_def excludeForDay_def arrIncludes_def
        currentExcluded_def newHabit_def)
  from noGhost_preserved [OF start gates] start gates final show ?thesis
    by simp
qed

text \<open>
  Claim C3 as stated fails for \<^verbatim>\<open>toggleHabit\<close> with any identifier and date: hiding a
  habit on 2024-03-12 and then toggling that same day leaves 2024-03-12 both completed and
  excluded. \<^verbatim>\<open>toggleHabit\<close> does not look at \<^verbatim>\<open>excludedDates\<close>; the daily column does,
  before it offers the toggle.
\<close>

theorem noGhost_toggle_excluded_counterexample:
  "noGhost [newHabit] \<and>
   \<not> noGhost (st_habits (run 0 \<lparr>st_habits = [newHabit], st_currentDate = tuesdayNoon\<rparr>
     [DeleteHabit ''1710244800001'' (Some ''2024-03-12''),
      ToggleHabit ''1710244800001'' ''2024-03-12'']))"
  by (simp add: noGhost_def toggleHabit_def deleteHabit_def excludeForDay_def arrIncludes_def
        currentExcluded_def newHabit_def)


section \<open>Completion counts and rates\<close>

lemma foldl_count:
  "foldl (\<lambda>acc h. acc + (if P h then 1 else 0)) n xs = n + length (filter P xs)"
  by (induction xs arbitrary: n) simp_all

lemma foldl_sum: "foldl (\<lambda>acc x. acc + f x) (n::nat) xs = n + sum_list (map f xs)"
  by (induction xs arbitrary: n) simp_all

lemma completedCount_eq:
  "completedCount active d = length (filter (\<lambda>h. iso d \<in> set (completedDates h)) active)"
  by (simp add: completedCount_def foldl_count arrIncludes_def)

lemma activeHabitsForDay_eq:
  "activeHabitsForDay daily d = filter (\<lambda>h. iso d \<notin> set (currentExcluded h)) daily"
  unfolding activeHabitsForDay_def currentExcluded_def arrIncludes_def
  by (rule filter_cong [OF refl]) (simp split: option.split)

lemma length_weekDates: "length (weekDates tza currentDate) = 7"
  by (simp add: weekDates_def)

lemma totalWeeklyTasks_eq: "totalWeeklyTasks pts = sum_list (map total pts)"
  by (simp add: totalWeeklyTasks_def foldl_sum)

lemma completedWeeklyTasks_eq: "completedWeeklyTasks pts = sum_list (map completed pts)"
  by (simp add: completedWeeklyTasks_def foldl_sum)

lemma weeklyCompletionRate_eq:
  "weeklyCompletionRate pts =
     (if sum_list (map total pts) = 0 then Some 0
      else Some (of_nat (sum_list (map completed pts)) / of_nat (sum_list (map total pts)) * 100))"
  by (simp add: weeklyCompletionRate_def totalWeeklyTasks_eq completedWeeklyTasks_eq
      numDivide_def numTimes_def)

lemma dayPercentage_eq:
  "dayPercentage daily d =
     (if dayTotalCount daily d = 0 then Some 0
      else Some (of_nat (dayCompletedCount daily d) / of_nat (dayTotalCount daily d) * 100))"
  by (simp add: dayPercentage_def numDivide_def numTimes_def)

lemma sum_completed_le:
  assumes "\<forall>p\<in>set pts. completed p \<le> total p"
  shows "sum_list (map completed pts) \<le> sum_list (map total pts)"
  using assms by (induction pts) auto

lemma weeklyCompletionRate_zero_iff:
  assumes "\<forall>p\<in>set pts. completed p \<le> total p"
  shows "weeklyCompletionRate pts = Some 0 \<longleftrightarrow> sum_list (map completed pts) = 0"
proof (cases "sum_list (map total pts) = 0")
  case True
  with sum_completed_le [OF assms] have "sum_list (map completed pts) = 0"
    by simp
  with True show ?thesis
    by (simp add: weeklyCompletionRate_eq)
next
  case False
  have "(Some (of_nat c / of_nat t * 100 :: rat) = Some 0) = (c = 0)" if "t \<noteq> 0" for c t :: nat
    using that by simp
  from this [OF False] False show ?thesis
    by (simp only: weeklyCompletionRate_eq if_False)
qed

lemma weekPoints_nth:
  assumes "k < 7"
  shows "weekPoints tza currentDate habits ! k =
           weeklyDataPoint (dailyHabits habits (weekDates tza currentDate))
             (weekDates tza currentDate ! k)"
  using assms by (simp add: weekPoints_def weeklyDataPoints_def length_weekDates)

lemma weekPoints_completed_le:
  "\<forall>p\<in>set (weekPoints tza currentDate habits). completed p \<le> total p"
  by (auto simp: weekPoints_def weeklyDataPoints_def weeklyDataPoint_def completedCount_eq)

text \<open>
  Claim C6, amended. For every collection and week there are seven data points. For each day,
  \<^verbatim>\<open>total\<close> is the number of habits shown for the week whose \<^verbatim>\<open>excludedDates\<close> lack the
  day's ISO date, and \<^verbatim>\<open>completed\<close> is the number of those whose \<^verbatim>\<open>completedDates\<close> hold
  it; the daily column computes the same two counts, and its percentage is
  \<open>100 * completed / total\<close>, or 0 when \<open>total\<close> is 0. The weekly rate is 100 times the
  sum of the daily completed counts over the sum of the daily totals, or 0 when the latter
  is 0; it is always a finite number, and it is 0 exactly when no completion was counted.
\<close>

theorem week_rates:
  "length (weekPoints tza currentDate habits) = 7 \<and>
   (\<forall>k<7.
      total (weekPoints tza currentDate habits ! k) =
        length (filter (\<lambda>h. iso (weekDates tza currentDate ! k) \<notin> set (currentExcluded h))
                  (dailyHabits habits (weekDates tza currentDate))) \<and>
      completed (weekPoints tza currentDate habits ! k) =
        length (filter (\<lambda>h. iso (weekDates tza currentDate ! k) \<in> set (completedDates h))
                 (filter (\<lambda>h. iso (weekDates tza currentDate ! k) \<notin> set (currentExcluded h))
                    (dailyHabits habits (weekDates tza currentDate)))) \<and>
      dayTotalCount (dailyHabits habits (weekDates tza currentDate))
          (weekDates tza currentDate ! k)
        = total (weekPoints tza currentDate habits ! k) \<and>
      dayCompletedCount (dailyHabits habits (weekDates tza currentDate))
          (weekDates tza currentDate ! k)
        = completed (weekPoints tza currentDate habits ! k) \<and>
      dayPercentage (dailyHabits habits (weekDates tza currentDate))
          (weekDates tza currentDate ! k)
        = (if total (weekPoints tza currentDate habits ! k) = 0 then Some 0
           else Some (of_nat (completed (weekPoints tza currentDate habits ! k)) /
                      of_nat (total (weekPoints tza currentDate habits ! k)) * 100))) \<and>
   weeklyCompletionRate (weekPoints tza currentDate habits) =
     (if sum_list (map total (weekPoints tza currentDate habits)) = 0 then Some 0
      else Some (of_nat (sum_list (map completed (weekPoints tza currentDate habits))) /
                 of_nat (sum_list (map total (weekPoints tza currentDate habits))) * 100)) \<and>
   weeklyCompletionRate (weekPoints tza currentDate habits) \<noteq> None \<and>
   (weeklyCompletionRate (weekPoints tza currentDate habits) = Some 0 \<longleftrightarrow>
      sum_list (map completed (weekPoints tza currentDate habits)) = 0)"
proof -
  let ?week = "weekDates tza currentDate"
  let ?daily = "dailyHabits habits ?week"
  let ?pts = "weekPoints tza currentDate habits"
  have len: "length ?pts = 7"
    by (simp add: weekPoints_def weeklyDataPoints_def length_weekDates)
  have days: "total (?pts ! k) = length (filter (\<lambda>h. iso (?week ! k) \<notin> set (currentExcluded h)) ?daily) \<and>
      completed (?pts ! k) =
        length (filter (\<lambda>h. iso (?week ! k) \<in> set (completedDates h))
                 (filter (\<lambda>h. iso (?week ! k) \<notin> set (currentExcluded h)) ?daily)) \<and>
      dayTotalCount ?daily (?week ! k) = total (?pts ! k) \<and>
      dayCompletedCount ?daily (?week ! k) = completed (?pts ! k) \<and>
      dayPercentage ?daily (?week ! k)
        = (if total (?pts ! k) = 0 then Some 0
           else Some (of_nat (completed (?pts ! k)) / of_nat (total (?pts ! k)) * 100))"
    if "k < 7" for k
    unfolding weekPoints_nth [OF that] dayPercentage_eq
    by (simp add: weeklyDataPoint_def dayTotalCount_def dayCompletedCount_def
        completedCount_eq activeHabitsForDay_eq arrIncludes_def)
  have rate: "weeklyCompletionRate ?pts =
     (if sum_list (map total ?pts) = 0 then Some 0
      else Some (of_nat (sum_list (map completed ?pts)) / of_nat (sum_list (map total ?pts)) * 100))"
    by (rule weeklyCompletionRate_eq)
  have finite: "weeklyCompletionRate ?pts \<noteq> None"
    unfolding rate by simp
  have zero: "weeklyCompletionRate ?pts = Some 0 \<longleftrightarrow> sum_list (map completed ?pts) = 0"
    by (rule weeklyCompletionRate_zero_iff [OF weekPoints_completed_le])
  show ?thesis
    apply (intro conjI allI impI)
             apply (rule len)
            apply (simp_all only: days rate [symmetric] zero)
    apply (rule finite)
    done
qed

lemma map_total_weeklyDataPoints:
  "map total (weeklyDataPoints week daily) =
     map (\<lambda>i. length (filter (\<lambda>h. i \<notin> set (currentExcluded h)) daily)) (map iso week)"
  by (simp add: weeklyDataPoints_def weeklyDataPoint_def activeHabitsForDay_eq comp_def)

lemma map_completed_weeklyDataPoints:
  "map completed (weeklyDataPoints week daily) =
     map (\<lambda>i. length (filter (\<lambda>h. i \<in> set (completedDates h))
                        (filter (\<lambda>h. i \<notin> set (currentExcluded h)) daily)))
       (map iso week)"
  by (simp add: weeklyDataPoints_def weeklyDataPoint_def activeHabitsForDay_eq
      completedCount_eq comp_def)

lemma calendar_march_2024:
  "YearFromDay 19793 = 2024" "MonthFromDay 19793 = 3" "DateFromDay 19793 = 11"
  "YearFromDay 19795 = 2024" "MonthFromDay 19795 = 3" "DateFromDay 19795 = 13"
  "YearFromDay 19796 = 2024" "MonthFromDay 19796 = 3" "DateFromDay 19796 = 14"
  "YearFromDay 19797 = 2024" "MonthFromDay 19797 = 3" "DateFromDay 19797 = 15"
  unfolding calendar_defs by simp_all

lemma week_days:
  "map (\<lambda>d. Day (dateObj d)) (weekDates 0 tuesdayNoon) =
     [19792, 19793, 19794, 19795, 19796, 19797, 19798]"
  by (simp add: weekDates_def weekDate_def getWeekStart_tuesdayNoon addDays_eq Day_def
      msPerDay_def)

lemma week_isos:
  "map iso (weekDates 0 tuesdayNoon) =
     [''2024-03-10'', ''2024-03-11'', ''2024-03-12'', ''2024-03-13'', ''2024-03-14'',
      ''2024-03-15'', ''2024-03-16'']"
proof -
  have "map iso (weekDates 0 tuesdayNoon)
        = map (\<lambda>n. isoYear (YearFromDay n) @ ''-'' @ padStart 2 (nat (MonthFromDay n)) @ ''-'' @
                    padStart 2 (nat (DateFromDay n)))
            (map (\<lambda>d. Day (dateObj d)) (weekDates 0 tuesdayNoon))"
    by (simp add: weekDates_def weekDate_def getISODate_eq)
  also have "\<dots> = [''2024-03-10'', ''2024-03-11'', ''2024-03-12'', ''2024-03-13'',
      ''2024-03-14'', ''2024-03-15'', ''2024-03-16'']"
    unfolding week_days
    by (simp add: calendar_19792 calendar_march_2024 calendar_19794 calendar_19798
        isoYear_def padStart_2 padStart_4 digit_def)
  finally show ?thesis .
qed

lemma dailyHabits_newHabit:
  "dailyHabits [newHabit\<lparr>completedDates := cs\<rparr>] (weekDates 0 tuesdayNoon)
     = [newHabit\<lparr>completedDates := cs\<rparr>]"
  by (simp add: dailyHabits_def isVisible_def isCreated_def weekStart_iso weekEnd_iso
      newHabit_def)

lemma weekPoints_newHabit:
  "map total (weekPoints 0 tuesdayNoon [newHabit\<lparr>completedDates := cs\<rparr>])
     = [1, 1, 1, 1, 1, 1, 1]"
  "map completed (weekPoints 0 tuesdayNoon [newHabit\<lparr>completedDates := [''2024-03-10'']\<rparr>])
     = [1, 0, 0, 0, 0, 0, 0]"
  "map completed (weekPoints 0 tuesdayNoon [newHabit\<lparr>completedDates := []\<rparr>])
     = [0, 0, 0, 0, 0, 0, 0]"
  unfolding weekPoints_def dailyHabits_newHabit map_total_weeklyDataPoints
    map_completed_weeklyDataPoints week_isos
  by (simp_all add: newHabit_def currentExcluded_def)

text \<open>One habit, completed on the Sunday only: Sunday stands at 100 percent, the week at
  100/7 percent.\<close>

theorem week_rates_witness:
  "(0::nat) < 7 \<and>
   total (weekPoints 0 tuesdayNoon [newHabit\<lparr>completedDates := [''2024-03-10'']\<rparr>] ! 0) = 1 \<and>
   completed (weekPoints 0 tuesdayNoon [newHabit\<lparr>completedDates := [''2024-03-10'']\<rparr>] ! 0) = 1 \<and>
   dayPercentage
     (dailyHabits [newHabit\<lparr>completedDates := [''2024-03-10'']\<rparr>] (weekDates 0 tuesdayNoon))
     (weekDates 0 tuesdayNoon ! 0) = Some 100 \<and>
   weeklyCompletionRate (weekPoints 0 tuesdayNoon [newHabit\<lparr>completedDates := [''2024-03-10'']\<rparr>])
     = Some (100 / 7)"
proof -
  let ?pts = "weekPoints 0 tuesdayNoon [newHabit\<lparr>completedDates := [''2024-03-10'']\<rparr>]"
  have len: "length ?pts = 7"
    by (simp add: weekPoints_def weeklyDataPoints_def length_weekDates)
  have "map total ?pts ! 0 = 1" "map completed ?pts ! 0 = 1"
    unfolding weekPoints_newHabit by simp_all
  then have first: "total (?pts ! 0) = 1" "completed (?pts ! 0) = 1"
    using len by simp_all
  have sums: "sum_list (map total ?pts) = 7" "sum_list (map completed ?pts) = 1"
    unfolding weekPoints_newHabit by simp_all
  from week_rates [of 0 tuesdayNoon "[newHabit\<lparr>completedDates := [''2024-03-10'']\<rparr>]"]
  show ?thesis
    by (simp add: first sums)
qed

text \<open>
  Claim C6 as stated fails twice. A habit never completed gives a weekly total of 7 and
  a rate of 0, so the rate is 0 although the total is not. A habit completed on one day of
  seven gives the rate 100/7, not 1/7: the rate is a percentage.
\<close>

theorem week_rates_counterexample:
  "sum_list (map total (weekPoints 0 tuesdayNoon [newHabit\<lparr>completedDates := []\<rparr>])) = 7 \<and>
   weeklyCompletionRate (weekPoints 0 tuesdayNoon [newHabit\<lparr>completedDates := []\<rparr>]) = Some 0 \<and>
   sum_list (map completed
     (weekPoints 0 tuesdayNoon [newHabit\<lparr>completedDates := [''2024-03-10'']\<rparr>])) = 1 \<and>
   sum_list (map total
     (weekPoints 0 tuesdayNoon [newHabit\<lparr>completedDates := [''2024-03-10'']\<rparr>])) = 7 \<and>
   weeklyCompletionRate (weekPoints 0 tuesdayNoon [newHabit\<lparr>completedDates := [''2024-03-10'']\<rparr>])
     = Some (100 / 7) \<and>
   Some (100 / 7) \<noteq> Some (1 / 7 :: rat)"
  unfolding weeklyCompletionRate_eq weekPoints_newHabit by simp


section \<open>The week window\<close>

text \<open>
  In every time zone the window has seven entries, entry \<open>k\<close> lies \<open>k\<close> days after the week
  start and falls, in local time, on weekday \<open>k\<close> counted from Sunday; resolving the window
  again from the \<^verbatim>\<open>dateObj\<close> of its first entry gives the same window. In UTC the ISO date
  of the first entry is the Sunday on or before the reference date and that of the last entry
  the Saturday after it.
\<close>

lemma weekDates_nth_weekDate:
  assumes "k < 7"
  shows "weekDates tza currentDate ! k = weekDate tza (getWeekStart tza currentDate) (int k)"
proof -
  from assms consider "k = 0" | "k = 1" | "k = 2" | "k = 3" | "k = 4" | "k = 5" | "k = 6"
    by linarith
  then have "[0, 1, 2, 3, 4, 5, 6] ! k = int k"
    by cases simp_all
  moreover have "k < length [0, 1, 2, 3, 4, 5, 6 :: int]"
    using assms by simp
  ultimately show ?thesis
    unfolding weekDates_def by (simp only: nth_map)
qed

lemma weekDates_fields:
  assumes "k < 7"
  shows "dateObj (weekDates tza currentDate ! k) = getWeekStart tza currentDate + int k * msPerDay"
    and "iso (weekDates tza currentDate ! k) = getISODate (dateObj (weekDates tza currentDate ! k))"
    and "dayName (weekDates tza currentDate ! k)
           = weekdayLong tza (dateObj (weekDates tza currentDate ! k))"
    and "shortDay (weekDates tza currentDate ! k)
           = weekdayShort tza (dateObj (weekDates tza currentDate ! k))"
  by (simp_all add: weekDates_nth_weekDate [OF assms] weekDate_def addDays_eq)

lemma weekDates_idempotent:
  "weekDates tza (dateObj (weekDates tza currentDate ! 0)) = weekDates tza currentDate"
proof -
  let ?first = "dateObj (weekDates tza currentDate ! 0)"
  have again: "getWeekStart tza ?first = getWeekStart tza currentDate"
    by (simp add: weekDates_fields getWeekStart_idem)
  have "weekDates tza ?first = map (weekDate tza (getWeekStart tza ?first)) [0, 1, 2, 3, 4, 5, 6]"
    by (rule weekDates_def)
  also have "\<dots> = map (weekDate tza (getWeekStart tza currentDate)) [0, 1, 2, 3, 4, 5, 6]"
    by (simp only: again)
  also have "\<dots> = weekDates tza currentDate"
    by (simp only: weekDates_def)
  finally show ?thesis .
qed

lemma getDay_shift:
  "getDay tza (t + n * msPerDay) = (getDay tza t + n) mod 7"
proof -
  have "LocalTime tza (t + n * msPerDay) = LocalTime tza t + n * msPerDay"
    by (simp add: LocalTime_def)
  then have "Day (LocalTime tza (t + n * msPerDay)) = Day (LocalTime tza t) + n"
    by (simp only: Day_shift)
  then show ?thesis
    by (simp add: getDay_def WeekDay_def mod_simps algebra_simps)
qed

lemma weekDates_local_weekday:
  assumes "k < 7"
  shows "getDay tza (dateObj (weekDates tza currentDate ! k)) = int k"
  using assms
  by (simp add: weekDates_fields getDay_shift getDay_getWeekStart)

lemma weekDates_utc:
  "WeekDay (dateObj (weekDates 0 currentDate ! 0)) = 0"
  "Day (dateObj (weekDates 0 currentDate ! 0)) \<le> Day currentDate"
  "Day currentDate < Day (dateObj (weekDates 0 currentDate ! 0)) + 7"
  "WeekDay (dateObj (weekDates 0 currentDate ! 6)) = 6"
  "Day (dateObj (weekDates 0 currentDate ! 6)) = Day (dateObj (weekDates 0 currentDate ! 0)) + 6"
proof -
  have gd: "getDay 0 t = WeekDay t" for t
    by (simp add: getDay_def LocalTime_def)
  have d0: "Day (dateObj (weekDates 0 currentDate ! 0)) = Day currentDate - WeekDay currentDate"
    using Day_shift [of currentDate "- WeekDay currentDate"]
    by (simp add: weekDates_fields getWeekStart_eq gd)
  have r: "0 \<le> WeekDay currentDate" "WeekDay currentDate < 7"
    by (simp_all add: WeekDay_def)
  show "WeekDay (dateObj (weekDates 0 currentDate ! 0)) = 0"
    using weekDates_local_weekday [of 0 0 currentDate] by (simp add: gd)
  show "Day (dateObj (weekDates 0 currentDate ! 0)) \<le> Day currentDate"
    using d0 r by simp
  show "Day currentDate < Day (dateObj (weekDates 0 currentDate ! 0)) + 7"
    using d0 r by simp
  show "WeekDay (dateObj (weekDates 0 currentDate ! 6)) = 6"
    using weekDates_local_weekday [of 6 0 currentDate] by (simp add: gd)
  show "Day (dateObj (weekDates 0 currentDate ! 6)) = Day (dateObj (weekDates 0 currentDate ! 0)) + 6"
    using Day_shift [of "getWeekStart 0 currentDate" 6]
    by (simp add: weekDates_fields)
qed

text \<open>
  Half past midnight on Sunday 2024-03-10 in a zone five and a half hours ahead of UTC is
  2024-03-09T19:00:00Z.
\<close>

lemma calendar_19791:
  "YearFromDay 19791 = 2024" "MonthFromDay 19791 = 3" "DateFromDay 19791 = 9"
  unfolding calendar_defs by simp_all

lemma getDay_kolkata: "getDay 19800000 1710010800000 = 0"
  by (simp add: getDay_def WeekDay_def LocalTime_def Day_def msPerDay_def)

lemma getWeekStart_kolkata: "getWeekStart 19800000 1710010800000 = 1710010800000"
  by (simp add: getWeekStart_eq getDay_kolkata)

text \<open>
  Claim C7 says that for every reference date the week window starts with the ISO date of
  the Sunday on or before it and ends with the ISO date of the following Saturday. At the
  reference date above the local weekday is Sunday and the first entry is labelled Sunday,
  but its ISO date is 2024-03-09, a Saturday (weekday 6 of its UTC day); the last entry is
  labelled Saturday with the ISO date 2024-03-15, a Friday. \<^verbatim>\<open>getWeekStart\<close> aligns the
  date in local time, \<^verbatim>\<open>getISODate\<close> renders it in UTC.
\<close>

theorem weekDates_first_day_not_sunday:
  "getDay 19800000 1710010800000 = 0 \<and>
   iso (weekDates 19800000 1710010800000 ! 0) = ''2024-03-09'' \<and>
   dayName (weekDates 19800000 1710010800000 ! 0) = ''Sunday'' \<and>
   WeekDay (dateObj (weekDates 19800000 1710010800000 ! 0)) = 6 \<and>
   iso (weekDates 19800000 1710010800000 ! 6) = ''2024-03-15'' \<and>
   dayName (weekDates 19800000 1710010800000 ! 6) = ''Saturday'' \<and>
   WeekDay (dateObj (weekDates 19800000 1710010800000 ! 6)) = 5"
proof -
  let ?w = "weekDates 19800000 1710010800000"
  have first: "dateObj (?w ! 0) = 1710010800000"
    by (simp add: weekDates_fields getWeekStart_kolkata)
  have last: "dateObj (?w ! 6) = 1710529200000"
    by (simp add: weekDates_fields getWeekStart_kolkata msPerDay_def)
  have days: "Day 1710010800000 = 19791" "Day 1710529200000 = 19797"
    by (simp_all add: Day_def msPerDay_def)
  have iso0: "iso (?w ! 0) = ''2024-03-09''"
    by (simp add: weekDates_fields(2) first getISODate_eq days calendar_19791 isoYear_def
        padStart_2 padStart_4 digit_def)
  have iso6: "iso (?w ! 6) = ''2024-03-15''"
    by (simp add: weekDates_fields(2) last getISODate_eq days calendar_march_2024 isoYear_def
        padStart_2 padStart_4 digit_def)
  have name0: "dayName (?w ! 0) = ''Sunday''"
    using weekDates_local_weekday [of 0 19800000 1710010800000]
    by (simp add: weekDates_fields(3) weekdayLong_def)
  have name6: "dayName (?w ! 6) = ''Saturday''"
    using weekDates_local_weekday [of 6 19800000 1710010800000]
    by (simp add: weekDates_fields(3) weekdayLong_def)
  have wd0: "WeekDay (dateObj (?w ! 0)) = 6"
    by (simp add: first WeekDay_def days)
  have wd6: "WeekDay (dateObj (?w ! 6)) = 5"
    by (simp add: last WeekDay_def days)
  from getDay_kolkata iso0 name0 wd0 iso6 name6 wd6 show ?thesis
    by (intro conjI)
qed

section \<open>What the insight generator returns\<close>

text \<open>
  The generator always returns a list: the three fixed tips when the call throws, otherwise
  at most three lines of the response, each of six code units or more, with a leading
  character of the pattern's class and the white space after it removed.
\<close>

lemma getHabitAnalysis_Throws:
  assumes "generateContent (map summarize habits) = Throws"
  shows "getHabitAnalysis generateContent habits = fallbackTips"
  using assms by (simp add: getHabitAnalysis_def)

lemma length_fallbackTips: "length fallbackTips = 3"
  by (simp add: fallbackTips_def)

lemma length_parseTips: "length (parseTips text) \<le> 3"
  by (simp add: parseTips_def)

lemma parseTips_long: "tip \<in> set (parseTips text) \<Longrightarrow> 6 \<le> length tip"
  by (auto simp: parseTips_def dest!: in_set_takeD)

lemma length_getHabitAnalysis: "length (getHabitAnalysis generateContent habits) \<le> 3"
  by (simp add: getHabitAnalysis_def length_fallbackTips length_parseTips split: Attempt.split)

lemma replaceBullet_class:
  assumes "inBulletClass c"
  shows "replaceBullet (c # cs) = dropWhile isSpaceUnit cs"
  using assms by (simp add: replaceBullet_def)

lemma replaceBullet_other:
  assumes "\<not> inBulletClass c"
  shows "replaceBullet (c # cs) = c # cs"
  using assms by (simp add: replaceBullet_def)

text \<open>
  Claim C9 says that the parsing strips leading bullet markers from each line. A line that
  starts with the bullet U+2022 (code unit 8226) is returned with the bullet: the class of
  the pattern holds U+00E2, U+20AC and U+00A2 in its place. A leading hyphen is stripped,
  unless white space stands before it: the pattern is anchored at the start of the line and
  the line is trimmed only afterwards.
\<close>

theorem getHabitAnalysis_keeps_bullet:
  "getHabitAnalysis (\<lambda>summary. Returns (Some (8226 # asUnits '' Drink water early'')))
     habits = [8226 # asUnits '' Drink water early''] \<and>
   getHabitAnalysis (\<lambda>summary. Returns (Some (asUnits ''- Drink water early'')))
     habits = [asUnits ''Drink water early''] \<and>
   getHabitAnalysis (\<lambda>summary. Returns (Some (asUnits ''  - Drink water early'')))
     habits = [asUnits ''- Drink water early'']"
  by (simp add: getHabitAnalysis_def parseTips_def asUnits_def replaceBullet_def
      inBulletClass_def trimUnits_def isSpaceUnit_def)

end
